theory Spec2Isabelle
  imports Complex_Main "HOL-Library.AList" "HOL-Library.Log_Nat"
begin

section \<open>llm-proxy: the request and response interception pipeline\<close>

text \<open>
  A shallow embedding of \<^verbatim>\<open>main.go\<close> of xhd2015/llm-proxy (the current variant, the
  second of the two concatenated in the source file): the transport hook
  \<^verbatim>\<open>loggingTransport.RoundTrip\<close>, \<^verbatim>\<open>replaceBody\<close>, \<^verbatim>\<open>isContentType\<close>,
  \<^verbatim>\<open>fixStreamingResponse\<close> and \<^verbatim>\<open>skipTextContainingSnapshot\<close>.

  Go strings and byte slices are byte sequences: \<^typ>\<open>string\<close>. Logging and the clock
  are left out: they never feed back into a returned value.
\<close>

subsection \<open>Package strings\<close>

text \<open>\<^verbatim>\<open>strings.HasPrefix(s, prefix)\<close>, \<^verbatim>\<open>strings.TrimPrefix(s, prefix)\<close> and
  \<^verbatim>\<open>strings.Contains(s, substr)\<close>.\<close>

definition HasPrefix :: "string \<Rightarrow> string \<Rightarrow> bool" where
  "HasPrefix s p = (take (length p) s = p)"

definition TrimPrefix :: "string \<Rightarrow> string \<Rightarrow> string" where
  "TrimPrefix s p = (if HasPrefix s p then drop (length p) s else s)"

fun Contains :: "string \<Rightarrow> string \<Rightarrow> bool" where
  "Contains [] sub = (sub = [])"
| "Contains (c # cs) sub = (HasPrefix (c # cs) sub \<or> Contains cs sub)"

text \<open>\<^verbatim>\<open>strings.Split(s, sep)\<close> for a separator of one byte, the only way the program
  calls it (\<^verbatim>\<open>"\n"\<close>): the pieces between the separators, so one piece more than
  there are separators, and \<^verbatim>\<open>[""]\<close> for the empty string.\<close>

fun Split :: "string \<Rightarrow> char \<Rightarrow> string list" where
  "Split [] sep = [[]]"
| "Split (c # cs) sep =
     (if c = sep then [] # Split cs sep
      else (case Split cs sep of
              [] \<Rightarrow> [[c]]
            | l # ls \<Rightarrow> (c # l) # ls))"

text \<open>\<^verbatim>\<open>strings.Join(elems, sep)\<close>.\<close>

fun Join :: "string list \<Rightarrow> string \<Rightarrow> string" where
  "Join [] sep = []"
| "Join [x] sep = x"
| "Join (x # y # ys) sep = x @ sep @ Join (y # ys) sep"

abbreviation LF :: char where
  "LF \<equiv> CHR 0x0A"

subsection \<open>Decoded JSON\<close>

text \<open>
  What \<^verbatim>\<open>json.Unmarshal\<close> stores into a \<^verbatim>\<open>map[string]interface{}\<close>: \<^verbatim>\<open>nil\<close>,
  \<^verbatim>\<open>bool\<close>, \<^verbatim>\<open>float64\<close>, \<^verbatim>\<open>string\<close>, \<^verbatim>\<open>[]interface{}\<close> and
  \<^verbatim>\<open>map[string]interface{}\<close>. A finite float64 is held by its exact value. A Go map
  is an association list read with \<^const>\<open>map_of\<close> and written with
  \<^const>\<open>AList.update\<close>; the nil map and the empty map both read as \<open>[]\<close> (the program
  writes to the map only after it has found a key in it).
\<close>

datatype jvalue =
    JNull
  | JBool bool
  | JNumber rat
  | JString string
  | JArray "jvalue list"
  | JObject "(string \<times> jvalue) list"

type_synonym jobject = "(string \<times> jvalue) list"

subsection \<open>The drop predicate\<close>

text \<open>
  \<^verbatim>\<open>
  func skipTextContainingSnapshot(data map[string]interface{}) bool {
      if dataType, ok := data["type"].(string); ok && dataType == "text" {
          if snapshot, ok := data["snapshot"]; ok {
              return true
          }
      }
      return false
  }
  \<close>
\<close>

definition skipTextContainingSnapshot :: "jobject \<Rightarrow> bool" where
  "skipTextContainingSnapshot data =
     (case map_of data ''type'' of
        Some (JString dataType) \<Rightarrow>
          if dataType = ''text'' then
            (case map_of data ''snapshot'' of
               Some snapshot \<Rightarrow> True
             | None \<Rightarrow> False)
          else False
      | _ \<Rightarrow> False)"

subsection \<open>The SSE line filter\<close>

text \<open>
  The loop of \<^verbatim>\<open>fixStreamingResponse\<close> over the lines, with its two variables
  \<^verbatim>\<open>newLines\<close> and \<^verbatim>\<open>modified\<close>. \<open>unmarshal\<close> is \<^verbatim>\<open>json.Unmarshal\<close> into a
  \<^verbatim>\<open>map[string]interface{}\<close>, \<open>None\<close> when it returns an error: the standard
  library's decoder is a parameter of the model.
\<close>

fun filterLines ::
  "(string \<Rightarrow> jobject option) \<Rightarrow> string list \<Rightarrow> string list \<Rightarrow> bool \<Rightarrow> string list \<times> bool"
where
  "filterLines unmarshal [] newLines modified = (newLines, modified)"
| "filterLines unmarshal (line # rest) newLines modified =
     (if \<not> HasPrefix line ''data: '' then filterLines unmarshal rest (newLines @ [line]) modified
      else
        let jsonData = TrimPrefix line ''data: '' in
        if jsonData = ''[DONE]'' \<or> jsonData = [] then
          filterLines unmarshal rest (newLines @ [line]) modified
        else
          (case unmarshal jsonData of
             None \<Rightarrow> filterLines unmarshal rest (newLines @ [line]) modified
           | Some data \<Rightarrow>
               if skipTextContainingSnapshot data then filterLines unmarshal rest newLines True
               else filterLines unmarshal rest (newLines @ [line]) modified))"

definition fixStreamingResponse :: "(string \<Rightarrow> jobject option) \<Rightarrow> string \<Rightarrow> string" where
  "fixStreamingResponse unmarshal body =
     (case filterLines unmarshal (Split body LF) [] False of
        (newLines, modified) \<Rightarrow> if modified then Join newLines [LF] else body)"

text \<open>The lines the loop leaves out: a \<^verbatim>\<open>data: \<close> line whose payload is neither
  sentinel, decodes, and is matched by the drop predicate.\<close>

definition dropped :: "(string \<Rightarrow> jobject option) \<Rightarrow> string \<Rightarrow> bool" where
  "dropped unmarshal line =
     (HasPrefix line ''data: '' \<and>
      TrimPrefix line ''data: '' \<noteq> ''[DONE]'' \<and>
      TrimPrefix line ''data: '' \<noteq> [] \<and>
      (case unmarshal (TrimPrefix line ''data: '') of
         None \<Rightarrow> False
       | Some data \<Rightarrow> skipTextContainingSnapshot data))"

definition dataFrame :: "string \<Rightarrow> bool" where
  "dataFrame line = HasPrefix line ''data: ''"

definition keptLines :: "(string \<Rightarrow> jobject option) \<Rightarrow> string \<Rightarrow> string list" where
  "keptLines unmarshal body = filter (\<lambda>l. \<not> dropped unmarshal l) (Split body LF)"

definition droppedLines :: "(string \<Rightarrow> jobject option) \<Rightarrow> string \<Rightarrow> string list" where
  "droppedLines unmarshal body = filter (dropped unmarshal) (Split body LF)"

subsection \<open>Errors, body streams and headers\<close>

text \<open>A Go \<^verbatim>\<open>error\<close> value, by its message.\<close>

datatype error = Error string

text \<open>
  An \<^verbatim>\<open>io.ReadCloser\<close>: the bytes it still has to deliver and, when it is a stream
  that breaks, the error it ends with instead of \<^verbatim>\<open>io.EOF\<close>.
  \<^verbatim>\<open>io.ReadAll\<close> drains it and returns the bytes or the error (the program drops
  the bytes read before an error); the reader is left empty.
  \<^verbatim>\<open>io.NopCloser(bytes.NewBuffer(b))\<close> is a fresh reader that delivers \<open>b\<close> and
  cannot fail.
\<close>

record reader =
  pending :: string
  failure :: "error option"

definition ReadAll :: "reader \<Rightarrow> (error + string) \<times> reader" where
  "ReadAll r =
     (case failure r of
        None \<Rightarrow> (Inr (pending r), r\<lparr>pending := []\<rparr>)
      | Some err \<Rightarrow> (Inl err, r\<lparr>pending := []\<rparr>))"

definition NopCloser :: "string \<Rightarrow> reader" where
  "NopCloser b = \<lparr>pending = b, failure = None\<rparr>"

text \<open>
  \<^verbatim>\<open>http.Header\<close> is a \<^verbatim>\<open>map[string][]string\<close> under canonical keys. The three keys
  the program names (\<^verbatim>\<open>Content-Type\<close>, \<^verbatim>\<open>Content-Length\<close>,
  \<^verbatim>\<open>Transfer-Encoding\<close>) are canonical as written, so \<^verbatim>\<open>Get\<close>, \<^verbatim>\<open>Set\<close> and
  \<^verbatim>\<open>Del\<close> use them as they are. A response carries an allocated header map, as
  every response built by package net/http does.
\<close>

type_synonym header = "string \<rightharpoonup> string list"

definition Header_Get :: "header \<Rightarrow> string \<Rightarrow> string" where
  "Header_Get h key =
     (case h key of
        None \<Rightarrow> []
      | Some [] \<Rightarrow> []
      | Some (v # vs) \<Rightarrow> v)"

definition Header_Set :: "header \<Rightarrow> string \<Rightarrow> string \<Rightarrow> header" where
  "Header_Set h key v = h(key \<mapsto> [v])"

definition Header_Del :: "header \<Rightarrow> string \<Rightarrow> header" where
  "Header_Del h key = h(key := None)"

text \<open>\<^verbatim>\<open>fmt.Sprintf("%d", n)\<close>: the decimal digits of \<open>n\<close>, with a sign when negative.\<close>

function decimal :: "int \<Rightarrow> string" where
  "decimal n =
     (if n < 10 then [char_of (48 + n)]
      else decimal (n div 10) @ [char_of (48 + n mod 10)])"
  by pat_completeness auto
termination
  by (relation "measure nat") auto

declare decimal.simps [simp del]

definition Sprintf_d :: "int \<Rightarrow> string" where
  "Sprintf_d i = (if i < 0 then CHR ''-'' # decimal (- i) else decimal i)"

subsection \<open>Requests, responses and the transport\<close>

text \<open>The fields of \<^verbatim>\<open>http.Request\<close> and \<^verbatim>\<open>http.Response\<close> that the hook reads or
  writes (the URL and the status text are only logged).\<close>

record request =
  Method :: string
  req_Header :: header
  req_Body :: reader
  req_ContentLength :: int

record response =
  StatusCode :: int
  resp_Header :: header
  resp_Body :: reader
  resp_ContentLength :: int

text \<open>An \<^verbatim>\<open>http.RoundTripper\<close>: what it answers to the request it is handed.\<close>

type_synonym roundTripper = "request \<Rightarrow> error + response"

text \<open>
  \<^verbatim>\<open>
  type loggingTransport struct {
      modelMap           map[string]string
      filterTextSnapshot bool
      Transport          http.RoundTripper
  }
  \<close>
\<close>

record loggingTransport =
  modelMap :: "string \<rightharpoonup> string"
  filterTextSnapshot :: bool
  Transport :: "roundTripper option"

text \<open>
  What the program takes from outside its own source: \<^verbatim>\<open>json.Unmarshal\<close> into a
  \<^verbatim>\<open>map[string]interface{}\<close> and \<^verbatim>\<open>json.Marshal\<close> of one (\<open>None\<close> when they
  return an error), and \<^verbatim>\<open>http.DefaultTransport\<close>. Every theorem about the hook
  holds for whatever these three functions are.
\<close>

record stdlib =
  json_Unmarshal :: "string \<Rightarrow> jobject option"
  json_Marshal :: "jobject \<Rightarrow> string option"
  DefaultTransport :: roundTripper

text \<open>
  \<^verbatim>\<open>
  func (t *loggingTransport) transport() http.RoundTripper {
      if t.Transport != nil {
          return t.Transport
      }
      return http.DefaultTransport
  }
  \<close>
\<close>

definition transport :: "stdlib \<Rightarrow> loggingTransport \<Rightarrow> roundTripper" where
  "transport lib t =
     (case Transport t of
        Some rt \<Rightarrow> rt
      | None \<Rightarrow> DefaultTransport lib)"

text \<open>
  \<^verbatim>\<open>
  func replaceBody(resp *http.Response, body []byte) {
      resp.Body = io.NopCloser(bytes.NewBuffer(body))
      newLen := len(body)
      resp.ContentLength = int64(newLen)
      resp.Header.Set("Content-Length", fmt.Sprintf("%d", newLen))
      resp.Header.Del("Transfer-Encoding")
  }
  \<close>
\<close>

definition replaceBody :: "response \<Rightarrow> string \<Rightarrow> response" where
  "replaceBody resp body =
     (let newLen = int (length body) in
      resp\<lparr>resp_Body := NopCloser body,
           resp_ContentLength := newLen,
           resp_Header :=
             Header_Del (Header_Set (resp_Header resp) ''Content-Length'' (Sprintf_d newLen))
               ''Transfer-Encoding''\<rparr>)"

text \<open>
  \<^verbatim>\<open>
  func isContentType(contentType string, expected string) bool {
      return strings.Contains(contentType, expected) ||
          strings.HasPrefix(contentType, expected+";")
  }
  \<close>
\<close>

definition isContentType :: "string \<Rightarrow> string \<Rightarrow> bool" where
  "isContentType contentType expected =
     (Contains contentType expected \<or> HasPrefix contentType (expected @ '';''))"

subsection \<open>The hook: the request side\<close>

text \<open>
  Lines 294 to 310 of \<^verbatim>\<open>RoundTrip\<close>, run on the request whose body has been read
  into \<open>body\<close> and restored from it:
  \<^verbatim>\<open>
  contentType := req.Header.Get("Content-Type")
  if req.Method == "POST" && (contentType == "application/json" ||
          strings.HasPrefix(contentType, "application/json;")) {
      var data map[string]interface{}
      if err := json.Unmarshal(body, &data); err == nil {
          if model, ok := data["model"].(string); ok {
              if newModel, ok := c.modelMap[model]; ok {
                  data["model"] = newModel
                  modifiedBody, err := json.Marshal(data)
                  if err == nil {
                      req.Body = io.NopCloser(bytes.NewBuffer(modifiedBody))
                      req.ContentLength = int64(len(modifiedBody))
                  }
              }
          }
      }
  }
  \<close>
\<close>

definition remapModel :: "stdlib \<Rightarrow> loggingTransport \<Rightarrow> string \<Rightarrow> request \<Rightarrow> request" where
  "remapModel lib c body req =
     (let contentType = Header_Get (req_Header req) ''Content-Type'' in
      if Method req = ''POST'' \<and>
         (contentType = ''application/json'' \<or> HasPrefix contentType ''application/json;'')
      then
        (case json_Unmarshal lib body of
           None \<Rightarrow> req
         | Some data \<Rightarrow>
             (case map_of data ''model'' of
                Some (JString model) \<Rightarrow>
                  (case modelMap c model of
                     None \<Rightarrow> req
                   | Some newModel \<Rightarrow>
                       (case json_Marshal lib (AList.update ''model'' (JString newModel) data) of
                          None \<Rightarrow> req
                        | Some modifiedBody \<Rightarrow>
                            req\<lparr>req_Body := NopCloser modifiedBody,
                                req_ContentLength := int (length modifiedBody)\<rparr>))
              | _ \<Rightarrow> req))
      else req)"

text \<open>The request that \<^verbatim>\<open>RoundTrip\<close> hands to the inner transport: as it came, its body
  drained, when the body cannot be read; otherwise with the body restored and the model
  remapped.\<close>

definition forwarded :: "stdlib \<Rightarrow> loggingTransport \<Rightarrow> request \<Rightarrow> request" where
  "forwarded lib c req =
     (case ReadAll (req_Body req) of
        (Inl err, drained) \<Rightarrow> req\<lparr>req_Body := drained\<rparr>
      | (Inr body, drained) \<Rightarrow> remapModel lib c body (req\<lparr>req_Body := NopCloser body\<rparr>))"

subsection \<open>The hook: the response side\<close>

text \<open>
  Lines 320 to 348 of \<^verbatim>\<open>RoundTrip\<close>:
  \<^verbatim>\<open>
  if resp.StatusCode >= 200 && resp.StatusCode < 300 {
      contentType := resp.Header.Get("Content-Type")
      if c.filterTextSnapshot {
          if isContentType(contentType, "text/event-stream") {
              respBody, err := io.ReadAll(resp.Body)
              if err != nil {
                  return resp, nil
              }
              modifiedBody := fixStreamingResponse(respBody)
              replaceBody(resp, modifiedBody)
          }
      }
  } else if resp.StatusCode >= 300 {
      body, err := io.ReadAll(resp.Body)
      if err != nil {
          return nil, err
      }
      replaceBody(resp, body)
  }
  return resp, nil
  \<close>
  \<^verbatim>\<open>io.ReadAll\<close> works on the reader the response points to: once it has returned,
  \<^verbatim>\<open>resp.Body\<close> is the drained reader, and that is the response \<^verbatim>\<open>replaceBody\<close>
  is called on (and the one returned when the stream cannot be read).
\<close>

definition postProcess :: "stdlib \<Rightarrow> loggingTransport \<Rightarrow> response \<Rightarrow> error + response" where
  "postProcess lib c resp =
     (if StatusCode resp \<ge> 200 \<and> StatusCode resp < 300 then
        let contentType = Header_Get (resp_Header resp) ''Content-Type'' in
        if filterTextSnapshot c then
          if isContentType contentType ''text/event-stream'' then
            (case ReadAll (resp_Body resp) of
               (Inl err, drained) \<Rightarrow> Inr (resp\<lparr>resp_Body := drained\<rparr>)
             | (Inr respBody, drained) \<Rightarrow>
                 Inr (replaceBody (resp\<lparr>resp_Body := drained\<rparr>)
                        (fixStreamingResponse (json_Unmarshal lib) respBody)))
          else Inr resp
        else Inr resp
      else if StatusCode resp \<ge> 300 then
        (case ReadAll (resp_Body resp) of
           (Inl err, drained) \<Rightarrow> Inl err
         | (Inr body, drained) \<Rightarrow> Inr (replaceBody (resp\<lparr>resp_Body := drained\<rparr>) body))
      else Inr resp)"

text \<open>
  \<^verbatim>\<open>RoundTrip\<close> as a whole. When the request body cannot be read the answer of the
  inner transport is returned as it is, with no work on the response:
  \<^verbatim>\<open>
  body, err := io.ReadAll(req.Body)
  if err != nil {
      return c.transport().RoundTrip(req)
  }
  req.Body = io.NopCloser(bytes.NewBuffer(body))
  ...
  resp, err := c.transport().RoundTrip(req)
  if err != nil {
      return nil, err
  }
  \<close>
\<close>

definition RoundTrip :: "stdlib \<Rightarrow> loggingTransport \<Rightarrow> request \<Rightarrow> error + response" where
  "RoundTrip lib c req =
     (case ReadAll (req_Body req) of
        (Inl err, drained) \<Rightarrow> transport lib c (req\<lparr>req_Body := drained\<rparr>)
      | (Inr body, drained) \<Rightarrow>
          (case transport lib c (remapModel lib c body (req\<lparr>req_Body := NopCloser body\<rparr>)) of
             Inl err \<Rightarrow> Inl err
           | Inr resp \<Rightarrow> postProcess lib c resp))"

subsection \<open>A reference codec\<close>

text \<open>
  The hook is evaluated at concrete requests and responses with the following codec in
  the place of package encoding/json. It follows the package on plain documents:
  objects, arrays, strings of ASCII bytes written without escapes, integer literals,
  \<^verbatim>\<open>true\<close>, \<^verbatim>\<open>false\<close>, \<^verbatim>\<open>null\<close> and white space between the tokens. Decoding
  turns every number into the nearest float64, ties to the even mantissa, and fails
  beyond the float64 range; a key met again overwrites the earlier value; the top level
  must be an object or \<^verbatim>\<open>null\<close>, which leaves the map nil. Encoding writes the keys in
  byte order with no white space, puts a backslash before a quote and before a backslash,
  writes \<^verbatim>\<open><\<close>, \<^verbatim>\<open>>\<close> and \<^verbatim>\<open>&\<close> as a backslash followed by \<^verbatim>\<open>u003c\<close>,
  \<^verbatim>\<open>u003e\<close> and \<^verbatim>\<open>u0026\<close>, and writes an
  integral float64 of magnitude up to \<open>2 ^ 53\<close> by its decimal digits.

  Outside these documents (escapes and bytes above 127 in strings, fractions and
  exponents, the literal \<^verbatim>\<open>-0\<close>, numbers above \<open>2 ^ 53\<close> on output) the codec answers
  \<open>None\<close> where the package goes on, so it stands for the package only on inputs
  inside them. No theorem about the hook depends on it: the codec is a parameter
  there. The decoder runs on fuel: a value opens with a byte of its own and each step
  of the descent spends one unit, so twice the length of the text is enough.
\<close>

definition is_ws :: "char \<Rightarrow> bool" where
  "is_ws c = (c = CHR '' '' \<or> c = CHR 0x09 \<or> c = CHR 0x0A \<or> c = CHR 0x0D)"

definition skip_ws :: "string \<Rightarrow> string" where
  "skip_ws s = dropWhile is_ws s"

definition is_digit :: "char \<Rightarrow> bool" where
  "is_digit c = (48 \<le> (of_char c :: nat) \<and> (of_char c :: nat) \<le> 57)"

text \<open>A string literal after its opening quote: the bytes up to the closing quote, and
  the rest of the text.\<close>

fun scan_string :: "string \<Rightarrow> (string \<times> string) option" where
  "scan_string [] = None"
| "scan_string (c # cs) =
     (if c = CHR 0x22 then Some ([], cs)
      else if c = CHR 0x5C \<or> (of_char c :: nat) < 32 \<or> (of_char c :: nat) > 127 then None
      else (case scan_string cs of
              None \<Rightarrow> None
            | Some (s, rest) \<Rightarrow> Some (c # s, rest)))"

text \<open>The float64 nearest to a natural number: 53 significant bits, ties to even.\<close>

definition float64_of_int :: "int \<Rightarrow> int" where
  "float64_of_int n =
     (if n < 2 ^ 53 then n
      else
        let e = nat (bitlen n - 53);
            q = n div 2 ^ e;
            r = n mod 2 ^ e;
            half = 2 ^ (e - 1)
        in if r > half \<or> (r = half \<and> odd q) then (q + 1) * 2 ^ e else q * 2 ^ e)"

definition digits_value :: "string \<Rightarrow> int" where
  "digits_value ds = foldl (\<lambda>acc c. 10 * acc + (of_char c - 48)) 0 ds"

definition scan_number :: "string \<Rightarrow> (rat \<times> string) option" where
  "scan_number s =
     (let neg = HasPrefix s ''-'';
          t = TrimPrefix s ''-'';
          ds = takeWhile is_digit t;
          rest = dropWhile is_digit t;
          v = float64_of_int (digits_value ds)
      in if ds = [] \<or> (length ds > 1 \<and> hd ds = CHR ''0'') then None
         else if HasPrefix rest ''.'' \<or> HasPrefix rest ''e'' \<or> HasPrefix rest ''E'' then None
         else if neg \<and> v = 0 then None
         else if v \<ge> 2 ^ 1024 then None
         else Some (if neg then - of_int v else of_int v, rest))"

definition expect :: "char \<Rightarrow> string \<Rightarrow> string option" where
  "expect c s =
     (case skip_ws s of
        [] \<Rightarrow> None
      | d # rest \<Rightarrow> if d = c then Some rest else None)"

definition insert_member :: "jobject \<Rightarrow> string \<times> jvalue \<Rightarrow> jobject" where
  "insert_member m kv = AList.update (fst kv) (snd kv) m"

fun parse_value :: "nat \<Rightarrow> string \<Rightarrow> (jvalue \<times> string) option"
and parse_elements :: "nat \<Rightarrow> string \<Rightarrow> (jvalue list \<times> string) option"
and parse_members :: "nat \<Rightarrow> string \<Rightarrow> ((string \<times> jvalue) list \<times> string) option"
where
  "parse_value 0 s = None"
| "parse_value (Suc n) s =
     (case skip_ws s of
        [] \<Rightarrow> None
      | c # cs \<Rightarrow>
          if c = CHR ''{'' then
            (case expect CHR ''}'' cs of
               Some rest \<Rightarrow> Some (JObject [], rest)
             | None \<Rightarrow>
                 (case parse_members n cs of
                    None \<Rightarrow> None
                  | Some (ms, rest) \<Rightarrow> Some (JObject (foldl insert_member [] ms), rest)))
          else if c = CHR ''['' then
            (case expect CHR '']'' cs of
               Some rest \<Rightarrow> Some (JArray [], rest)
             | None \<Rightarrow>
                 (case parse_elements n cs of
                    None \<Rightarrow> None
                  | Some (vs, rest) \<Rightarrow> Some (JArray vs, rest)))
          else if c = CHR 0x22 then
            (case scan_string cs of
               None \<Rightarrow> None
             | Some (str, rest) \<Rightarrow> Some (JString str, rest))
          else if HasPrefix (c # cs) ''true'' then Some (JBool True, drop 4 (c # cs))
          else if HasPrefix (c # cs) ''false'' then Some (JBool False, drop 5 (c # cs))
          else if HasPrefix (c # cs) ''null'' then Some (JNull, drop 4 (c # cs))
          else
            (case scan_number (c # cs) of
               None \<Rightarrow> None
             | Some (r, rest) \<Rightarrow> Some (JNumber r, rest)))"
| "parse_elements 0 s = None"
| "parse_elements (Suc n) s =
     (case parse_value n s of
        None \<Rightarrow> None
      | Some (v, rest) \<Rightarrow>
          (case expect CHR '','' rest of
             Some rest' \<Rightarrow>
               (case parse_elements n rest' of
                  None \<Rightarrow> None
                | Some (vs, rest'') \<Rightarrow> Some (v # vs, rest''))
           | None \<Rightarrow>
               (case expect CHR '']'' rest of
                  Some rest' \<Rightarrow> Some ([v], rest')
                | None \<Rightarrow> None)))"
| "parse_members 0 s = None"
| "parse_members (Suc n) s =
     (case expect CHR 0x22 s of
        None \<Rightarrow> None
      | Some s1 \<Rightarrow>
          (case scan_string s1 of
             None \<Rightarrow> None
           | Some (key, s2) \<Rightarrow>
               (case expect CHR '':'' s2 of
                  None \<Rightarrow> None
                | Some s3 \<Rightarrow>
                    (case parse_value n s3 of
                       None \<Rightarrow> None
                     | Some (v, rest) \<Rightarrow>
                         (case expect CHR '','' rest of
                            Some rest' \<Rightarrow>
                              (case parse_members n rest' of
                                 None \<Rightarrow> None
                               | Some (ms, rest'') \<Rightarrow> Some ((key, v) # ms, rest''))
                          | None \<Rightarrow>
                              (case expect CHR ''}'' rest of
                                 Some rest' \<Rightarrow> Some ([(key, v)], rest')
                               | None \<Rightarrow> None))))))"

definition go_Unmarshal :: "string \<Rightarrow> jobject option" where
  "go_Unmarshal s =
     (case parse_value (2 * length s + 2) s of
        Some (JObject data, rest) \<Rightarrow> if skip_ws rest = [] then Some data else None
      | Some (JNull, rest) \<Rightarrow> if skip_ws rest = [] then Some [] else None
      | _ \<Rightarrow> None)"

definition encode_number :: "rat \<Rightarrow> string option" where
  "encode_number r =
     (let n = \<lfloor>r\<rfloor> in
      if of_int n \<noteq> r \<or> \<bar>n\<bar> > 2 ^ 53 then None
      else Some (if n < 0 then CHR ''-'' # decimal (- n) else decimal n))"

definition escape :: "char \<Rightarrow> string option" where
  "escape c =
     (if c = CHR 0x22 then Some [CHR 0x5C, CHR 0x22]
      else if c = CHR 0x5C then Some [CHR 0x5C, CHR 0x5C]
      else if c = CHR ''<'' then Some (CHR 0x5C # ''u003c'')
      else if c = CHR ''>'' then Some (CHR 0x5C # ''u003e'')
      else if c = CHR ''&'' then Some (CHR 0x5C # ''u0026'')
      else if (of_char c :: nat) < 32 \<or> (of_char c :: nat) > 127 then None
      else Some [c])"

fun escape_all :: "string \<Rightarrow> string option" where
  "escape_all [] = Some []"
| "escape_all (c # cs) =
     (case escape c of
        None \<Rightarrow> None
      | Some e \<Rightarrow>
          (case escape_all cs of
             None \<Rightarrow> None
           | Some es \<Rightarrow> Some (e @ es)))"

definition encode_string :: "string \<Rightarrow> string option" where
  "encode_string s =
     (case escape_all s of
        None \<Rightarrow> None
      | Some e \<Rightarrow> Some (CHR 0x22 # e @ [CHR 0x22]))"

text \<open>The order of the keys of an encoded object: byte by byte.\<close>

fun string_le :: "string \<Rightarrow> string \<Rightarrow> bool" where
  "string_le [] t = True"
| "string_le (c # cs) [] = False"
| "string_le (c # cs) (d # ds) =
     ((of_char c :: nat) < of_char d \<or> (c = d \<and> string_le cs ds))"

fun insert_sorted ::
  "string \<times> string \<Rightarrow> (string \<times> string) list \<Rightarrow> (string \<times> string) list"
where
  "insert_sorted kv [] = [kv]"
| "insert_sorted kv (x # xs) =
     (if string_le (fst kv) (fst x) then kv # x # xs else x # insert_sorted kv xs)"

definition sort_keys :: "(string \<times> string) list \<Rightarrow> (string \<times> string) list" where
  "sort_keys kvs = foldr insert_sorted kvs []"

fun encode :: "jvalue \<Rightarrow> string option"
and encode_list :: "jvalue list \<Rightarrow> string list option"
and encode_members :: "(string \<times> jvalue) list \<Rightarrow> (string \<times> string) list option"
where
  "encode JNull = Some ''null''"
| "encode (JBool b) = Some (if b then ''true'' else ''false'')"
| "encode (JNumber r) = encode_number r"
| "encode (JString s) = encode_string s"
| "encode (JArray vs) =
     (case encode_list vs of
        None \<Rightarrow> None
      | Some es \<Rightarrow> Some (''['' @ Join es '','' @ '']''))"
| "encode (JObject ms) =
     (case encode_members ms of
        None \<Rightarrow> None
      | Some kvs \<Rightarrow> Some (''{'' @ Join (map snd (sort_keys kvs)) '','' @ ''}''))"
| "encode_list [] = Some []"
| "encode_list (v # vs) =
     (case encode v of
        None \<Rightarrow> None
      | Some e \<Rightarrow>
          (case encode_list vs of
             None \<Rightarrow> None
           | Some es \<Rightarrow> Some (e # es)))"
| "encode_members [] = Some []"
| "encode_members ((k, v) # ms) =
     (case encode_string k of
        None \<Rightarrow> None
      | Some ek \<Rightarrow>
          (case encode v of
             None \<Rightarrow> None
           | Some e \<Rightarrow>
               (case encode_members ms of
                  None \<Rightarrow> None
                | Some kvs \<Rightarrow> Some ((k, ek @ '':'' @ e) # kvs))))"

definition go_Marshal :: "jobject \<Rightarrow> string option" where
  "go_Marshal data = encode (JObject data)"

text \<open>The library with the reference codec, and an upstream that answers every
  request with \<open>upstream\<close>.\<close>

definition go_stdlib :: "roundTripper \<Rightarrow> stdlib" where
  "go_stdlib upstream =
     \<lparr>json_Unmarshal = go_Unmarshal, json_Marshal = go_Marshal, DefaultTransport = upstream\<rparr>"

subsection \<open>Worked inputs\<close>

text \<open>The stream of the README's report: a text event that carries a snapshot, then the
  closing sentinel, each line ended by a line feed.\<close>

definition sse_example :: string where
  \<open>sse_example =
     ''data: {"type":"text","text":"I'm open","snapshot":"I'm open"}'' @ [LF] @
     ''data: [DONE]'' @ [LF]\<close>

text \<open>A proxy with the model map of the repository's test, the snapshot filter on, and
  no transport of its own, so that the default one is used.\<close>

definition proxy :: loggingTransport where
  "proxy =
     \<lparr>modelMap = [''some-dangerous-model'' \<mapsto> ''less-safe-model''],
      filterTextSnapshot = True,
      Transport = None\<rparr>"

text \<open>Responses: a chunked event stream with nothing to drop, the README's stream, a
  stream with a kept text event, a stream that breaks while it is read, a 404 with a
  JSON body, and a 502 whose body breaks.\<close>

definition resp_sse_done :: response where
  "resp_sse_done =
     \<lparr>StatusCode = 200,
      resp_Header = [''Content-Type'' \<mapsto> [''text/event-stream''],
                     ''Transfer-Encoding'' \<mapsto> [''chunked'']],
      resp_Body = \<lparr>pending = ''data: [DONE]'' @ [LF], failure = None\<rparr>,
      resp_ContentLength = - 1\<rparr>"

definition resp_sse_snapshot :: response where
  "resp_sse_snapshot = resp_sse_done\<lparr>resp_Body := \<lparr>pending = sse_example, failure = None\<rparr>\<rparr>"

definition resp_sse_broken :: response where
  "resp_sse_broken =
     resp_sse_done\<lparr>resp_Body := \<lparr>pending = ''data: '', failure = Some (Error ''unexpected EOF'')\<rparr>\<rparr>"

definition resp_not_found :: response where
  \<open>resp_not_found =
     \<lparr>StatusCode = 404,
      resp_Header = [''Content-Type'' \<mapsto> [''application/json''],
                     ''Transfer-Encoding'' \<mapsto> [''chunked'']],
      resp_Body = \<lparr>pending = ''{"error":"not found"}'', failure = None\<rparr>,
      resp_ContentLength = - 1\<rparr>\<close>

definition resp_bad_gateway :: response where
  "resp_bad_gateway =
     \<lparr>StatusCode = 502,
      resp_Header = [''Content-Type'' \<mapsto> [''text/plain'']],
      resp_Body = \<lparr>pending = ''upstr'', failure = Some (Error ''connection reset by peer'')\<rparr>,
      resp_ContentLength = 20\<rparr>"

definition resp_sse_hi :: response where
  \<open>resp_sse_hi =
     \<lparr>StatusCode = 200,
      resp_Header = [''Content-Type'' \<mapsto> [''text/event-stream; charset=utf-8''],
                     ''Transfer-Encoding'' \<mapsto> [''chunked'']],
      resp_Body = \<lparr>pending = ''data: {"type":"text","text":"hi"}'' @ [LF], failure = None\<rparr>,
      resp_ContentLength = - 1\<rparr>\<close>

text \<open>Inner transports: one that fails, and one that answers with a given response.\<close>

definition no_upstream :: roundTripper where
  "no_upstream req = Inl (Error ''no upstream'')"

definition upstream_of :: "response \<Rightarrow> roundTripper" where
  "upstream_of resp req = Inr resp"

text \<open>The inner transport of the repository's test (\<^verbatim>\<open>mockRoundTripper\<close>): it reads the
  body of the request it is handed and answers 200 with those bytes as the body.\<close>

definition echo_upstream :: roundTripper where
  "echo_upstream req =
     (case ReadAll (req_Body req) of
        (Inl err, drained) \<Rightarrow> Inl err
      | (Inr body, drained) \<Rightarrow>
          Inr \<lparr>StatusCode = 200, resp_Header = Map.empty,
               resp_Body = NopCloser body, resp_ContentLength = 0\<rparr>)"

definition get_request :: request where
  "get_request =
     \<lparr>Method = ''GET'', req_Header = Map.empty,
      req_Body = \<lparr>pending = [], failure = None\<rparr>, req_ContentLength = 0\<rparr>"

text \<open>Requests: a GET without a body, and POST requests with the bodies of the repository's test
  (a remapped model, another model, a model that is a number, no model, a content type
  that is not JSON), one with a body cut short, one with further fields, and two with a
  number beyond the integers a float64 holds exactly.\<close>

definition post_request :: "string \<Rightarrow> string \<Rightarrow> request" where
  "post_request contentType body =
     \<lparr>Method = ''POST'',
      req_Header = [''Content-Type'' \<mapsto> [contentType]],
      req_Body = \<lparr>pending = body, failure = None\<rparr>,
      req_ContentLength = int (length body)\<rparr>"

definition body_dangerous :: string where
  \<open>body_dangerous = ''{"model":"some-dangerous-model"}''\<close>

definition body_other_model :: string where
  \<open>body_other_model = ''{"model":"some-other-model"}''\<close>

definition body_model_number :: string where
  \<open>body_model_number = ''{"model":123}''\<close>

definition body_no_model :: string where
  \<open>body_no_model = ''{"other_field":"some-value"}''\<close>

definition body_malformed :: string where
  \<open>body_malformed = ''{"model":"some-dangerous-model"''\<close>

definition body_seed :: string where
  \<open>body_seed = ''{"model":"some-dangerous-model","seed":-9007199254740993}''\<close>

definition body_with_fields :: string where
  \<open>body_with_fields = ''{"model":"some-dangerous-model","stream":true,"max_tokens":1024}''\<close>

definition body_big_number :: string where
  \<open>body_big_number = ''{"model":"some-dangerous-model","max_tokens":9007199254740993}''\<close>

section \<open>Properties of the SSE line filter\<close>

subsection \<open>Splitting and joining lines\<close>

lemma Split_not_Nil: "Split s sep \<noteq> []"
  by (induction s) (auto split: list.splits)

lemma Join_Cons: "xs \<noteq> [] \<Longrightarrow> Join (x # xs) sep = x @ sep @ Join xs sep"
  by (cases xs) auto

lemma Join_Split: "Join (Split s sep) [sep] = s"
proof (induction s)
  case Nil
  show ?case by simp
next
  case (Cons c cs)
  show ?case
  proof (cases "c = sep")
    case True
    with Cons show ?thesis by (simp add: Join_Cons Split_not_Nil)
  next
    case False
    obtain l ls where s: "Split cs sep = l # ls"
      using Split_not_Nil [of cs sep] by (cases "Split cs sep") auto
    with Cons False show ?thesis by (cases ls) auto
  qed
qed

lemma Split_no_sep: "l \<in> set (Split s sep) \<Longrightarrow> sep \<notin> set l"
  by (induction s arbitrary: l) (auto split: if_splits list.splits)

lemma Split_append_no_sep:
  "sep \<notin> set x \<Longrightarrow> Split (x @ sep # s) sep = x # Split s sep"
  by (induction x) auto

lemma Split_no_sep_id: "sep \<notin> set x \<Longrightarrow> Split x sep = [x]"
  by (induction x) auto

lemma Split_Join:
  "xs \<noteq> [] \<Longrightarrow> \<forall>l \<in> set xs. sep \<notin> set l \<Longrightarrow> Split (Join xs [sep]) sep = xs"
proof (induction xs "[sep]" rule: Join.induct)
  case 1
  then show ?case by simp
next
  case (2 x)
  then show ?case by (simp add: Split_no_sep_id)
next
  case (3 x y ys)
  then show ?case by (simp add: Split_append_no_sep)
qed

subsection \<open>The loop as a filter\<close>

lemma filterLines_eq:
  "filterLines u ls acc m =
     (acc @ filter (\<lambda>l. \<not> dropped u l) ls, m \<or> (\<exists>l \<in> set ls. dropped u l))"
  by (induction ls arbitrary: acc m)
     (auto simp: dropped_def Let_def split: option.splits)

lemma fixStreamingResponse_Join:
  "fixStreamingResponse u body = Join (keptLines u body) [LF]"
proof (cases "\<exists>l \<in> set (Split body LF). dropped u l")
  case True
  then show ?thesis
    by (simp add: fixStreamingResponse_def filterLines_eq keptLines_def)
next
  case False
  then have "filter (\<lambda>l. \<not> dropped u l) (Split body LF) = Split body LF"
    by (simp add: filter_id_conv)
  with False show ?thesis
    by (simp add: fixStreamingResponse_def filterLines_eq Join_Split keptLines_def)
qed

lemma keptLines_no_LF: "l \<in> set (keptLines u body) \<Longrightarrow> LF \<notin> set l"
  unfolding keptLines_def using Split_no_sep [of l body LF] by simp

lemma Split_fixStreamingResponse:
  "Split (fixStreamingResponse u body) LF =
     (if keptLines u body = [] then [[]] else keptLines u body)"
proof (cases "keptLines u body = []")
  case True
  then show ?thesis by (simp add: fixStreamingResponse_Join)
next
  case False
  moreover have "\<forall>l \<in> set (keptLines u body). LF \<notin> set l"
    using keptLines_no_LF by blast
  ultimately show ?thesis
    by (simp add: fixStreamingResponse_Join Split_Join)
qed

text \<open>A decoder that rejects the two sentinels, as \<^verbatim>\<open>json.Unmarshal\<close> does (neither is a
  JSON text), drops exactly the \<^verbatim>\<open>data: \<close> lines whose payload decodes as an object
  that the drop predicate matches.\<close>

lemma dropped_iff_decodes:
  assumes "u ''[DONE]'' = None" and "u [] = None"
  shows "dropped u line =
     (HasPrefix line ''data: '' \<and>
      (\<exists>data. u (TrimPrefix line ''data: '') = Some data \<and> skipTextContainingSnapshot data))"
  using assms by (auto simp: dropped_def split: option.splits)

lemma go_Unmarshal_sentinels: "go_Unmarshal ''[DONE]'' = None" "go_Unmarshal [] = None"
  by code_simp+

lemma dropped_dataFrame: "dropped u l \<Longrightarrow> dataFrame l"
  by (simp add: dropped_def dataFrame_def)

lemma count_after_filter:
  "(\<And>x. Q x \<Longrightarrow> P x) \<Longrightarrow>
   length (filter P (filter (\<lambda>x. \<not> Q x) xs)) + length (filter Q xs) = length (filter P xs)"
  by (induction xs) auto

subsection \<open>The claims about the filter\<close>

text \<open>
  C2. The drop predicate holds of a decoded object exactly when its \<^verbatim>\<open>type\<close> is the
  string \<^verbatim>\<open>"text"\<close> and it has a key \<^verbatim>\<open>snapshot\<close>, whatever value the key holds;
  every other object is kept.
\<close>

theorem skipTextContainingSnapshot_iff:
  "skipTextContainingSnapshot data =
     (map_of data ''type'' = Some (JString ''text'') \<and> map_of data ''snapshot'' \<noteq> None)"
  by (simp add: skipTextContainingSnapshot_def split: option.splits jvalue.splits)

theorem skipTextContainingSnapshot_iff_witness:
  "skipTextContainingSnapshot [(''type'', JString ''text''), (''snapshot'', JNull)] \<and>
   skipTextContainingSnapshot [(''snapshot'', JBool False), (''type'', JString ''text'')] \<and>
   \<not> skipTextContainingSnapshot [(''type'', JString ''text''), (''text'', JString ''hi'')] \<and>
   \<not> skipTextContainingSnapshot [(''type'', JString ''delta''), (''snapshot'', JString ''hi'')] \<and>
   \<not> skipTextContainingSnapshot [(''snapshot'', JString ''hi'')]"
  by (simp add: skipTextContainingSnapshot_iff)

text \<open>
  C1. The output of the filter is the input's lines (split at line feeds) without the
  dropped ones, joined again with line feeds: the lines that stay are the same byte
  strings in the same order, none twice, none cut. A line is dropped exactly when it has
  the prefix \<^verbatim>\<open>data: \<close>, its payload is neither sentinel, decodes as an object, and the
  drop predicate matches the object. Read back as lines the output is the list of kept
  lines (one empty line when nothing is kept, as the empty text splits), and it has as
  many \<^verbatim>\<open>data: \<close> lines as the input had, less the dropped ones. This holds for
  whatever the decoder is.
\<close>

theorem fixStreamingResponse_removes_only_dropped:
  "fixStreamingResponse u body = Join (keptLines u body) [LF] \<and>
   Split (fixStreamingResponse u body) LF =
     (if keptLines u body = [] then [[]] else keptLines u body) \<and>
   length (filter dataFrame (Split (fixStreamingResponse u body) LF)) +
     length (droppedLines u body) = length (filter dataFrame (Split body LF))"
proof -
  have count:
    "length (filter dataFrame (keptLines u body)) + length (droppedLines u body) =
       length (filter dataFrame (Split body LF))"
    unfolding keptLines_def droppedLines_def
    by (rule count_after_filter) (rule dropped_dataFrame)
  have "length (filter dataFrame (Split (fixStreamingResponse u body) LF)) =
          length (filter dataFrame (keptLines u body))"
    by (simp add: Split_fixStreamingResponse dataFrame_def HasPrefix_def)
  with count show ?thesis
    by (simp add: fixStreamingResponse_Join [symmetric] Split_fixStreamingResponse)
qed

lemma sse_example_kept:
  \<open>keptLines go_Unmarshal sse_example = [''data: [DONE]'', [] ]\<close>
  by code_simp

lemma sse_example_dropped:
  \<open>droppedLines go_Unmarshal sse_example =
     [''data: {"type":"text","text":"I'm open","snapshot":"I'm open"}'']\<close>
  by code_simp

lemma sse_example_frames:
  \<open>filter dataFrame (Split sse_example LF) =
     [''data: {"type":"text","text":"I'm open","snapshot":"I'm open"}'', ''data: [DONE]'']\<close>
  by code_simp

theorem fixStreamingResponse_removes_only_dropped_witness:
  \<open>fixStreamingResponse go_Unmarshal sse_example = ''data: [DONE]'' @ [LF] \<and>
   Split (fixStreamingResponse go_Unmarshal sse_example) LF = [''data: [DONE]'', [] ] \<and>
   length (filter dataFrame (Split (fixStreamingResponse go_Unmarshal sse_example) LF)) + 1 = 2\<close>
  using fixStreamingResponse_removes_only_dropped [of go_Unmarshal sse_example]
  by (simp add: sse_example_kept sse_example_dropped sse_example_frames dataFrame_def HasPrefix_def)

text \<open>
  C8. Filtering the filter's output gives the same bytes back, and the second pass
  drops no line: its \<^verbatim>\<open>modified\<close> flag stays false.
\<close>

theorem fixStreamingResponse_idempotent:
  "fixStreamingResponse u (fixStreamingResponse u body) = fixStreamingResponse u body \<and>
   snd (filterLines u (Split (fixStreamingResponse u body) LF) [] False) = False"
proof -
  let ?out = "fixStreamingResponse u body"
  have keep: "\<not> dropped u l" if "l \<in> set (Split ?out LF)" for l
  proof (cases "keptLines u body = []")
    case True
    with that have "l = []" by (simp add: Split_fixStreamingResponse)
    then show ?thesis by (simp add: dropped_def HasPrefix_def)
  next
    case False
    with that have "l \<in> set (keptLines u body)" by (simp add: Split_fixStreamingResponse)
    then show ?thesis by (simp add: keptLines_def)
  qed
  then have again: "filterLines u (Split ?out LF) [] False = (Split ?out LF, False)"
    by (simp add: filterLines_eq filter_id_conv)
  then show ?thesis by (simp add: fixStreamingResponse_def [of u ?out])
qed

lemma sse_example_out: \<open>fixStreamingResponse go_Unmarshal sse_example = ''data: [DONE]'' @ [LF]\<close>
  by code_simp

theorem fixStreamingResponse_idempotent_witness:
  \<open>fixStreamingResponse go_Unmarshal (''data: [DONE]'' @ [LF]) = ''data: [DONE]'' @ [LF] \<and>
   snd (filterLines go_Unmarshal (Split (''data: [DONE]'' @ [LF]) LF) [] False) = False\<close>
  using fixStreamingResponse_idempotent [of go_Unmarshal sse_example]
  by (simp only: sse_example_out)

section \<open>Properties of the hook\<close>

subsection \<open>Readers, headers and the decimal length\<close>

lemma ReadAll_NopCloser: "ReadAll (NopCloser b) = (Inr b, NopCloser [])"
  by (simp add: ReadAll_def NopCloser_def)

lemma ReadAll_ok: "failure r = None \<Longrightarrow> ReadAll r = (Inr (pending r), r\<lparr>pending := []\<rparr>)"
  by (simp add: ReadAll_def)

lemma ReadAll_fails: "failure r = Some err \<Longrightarrow> ReadAll r = (Inl err, r\<lparr>pending := []\<rparr>)"
  by (simp add: ReadAll_def)

lemma replaceBody_fields:
  "resp_Body (replaceBody resp body) = NopCloser body"
  "resp_ContentLength (replaceBody resp body) = int (length body)"
  "StatusCode (replaceBody resp body) = StatusCode resp"
  "resp_Header (replaceBody resp body) =
     (resp_Header resp)(''Content-Length'' \<mapsto> [Sprintf_d (int (length body))],
                        ''Transfer-Encoding'' := None)"
  by (simp_all add: replaceBody_def Let_def Header_Set_def Header_Del_def)

lemma replaceBody_drained:
  "replaceBody (resp\<lparr>resp_Body := drained\<rparr>) body = replaceBody resp body"
  by (simp add: replaceBody_def Let_def)

lemma ReadAll_drained:
  "failure r = None \<Longrightarrow> ReadAll (snd (ReadAll r)) = (Inr [], snd (ReadAll r))"
  by (simp add: ReadAll_def)

lemma replaceBody_Content_Length:
  "Header_Get (resp_Header (replaceBody resp body)) ''Content-Length'' =
     Sprintf_d (int (length body))"
  by (simp add: replaceBody_fields Header_Get_def)

lemma replaceBody_Transfer_Encoding:
  "resp_Header (replaceBody resp body) ''Transfer-Encoding'' = None"
  by (simp add: replaceBody_fields)

lemma replaceBody_other_headers:
  "k \<noteq> ''Content-Length'' \<Longrightarrow> k \<noteq> ''Transfer-Encoding'' \<Longrightarrow>
   resp_Header (replaceBody resp body) k = resp_Header resp k"
  by (simp add: replaceBody_fields)

lemma digits_value_snoc:
  "digits_value (ds @ [c]) = 10 * digits_value ds + (of_char c - 48)"
  by (simp add: digits_value_def)

lemma digits_value_decimal: "0 \<le> n \<Longrightarrow> digits_value (decimal n) = n"
proof (induction n rule: decimal.induct)
  case (1 n)
  show ?case
  proof (cases "n < 10")
    case True
    with "1.prems" have "(of_char (char_of (48 + n)) :: int) = 48 + n"
      by (simp add: of_char_of)
    with True show ?thesis
      by (simp add: decimal.simps [of n] digits_value_def)
  next
    case False
    have "(of_char (char_of (48 + n mod 10)) :: int) = 48 + n mod 10"
      by (simp add: of_char_of)
    moreover have "digits_value (decimal (n div 10)) = n div 10"
      using False "1.prems" by (intro "1.IH") auto
    ultimately show ?thesis
      using False by (simp add: decimal.simps [of n] digits_value_snoc)
  qed
qed

lemma digits_value_Sprintf_d: "digits_value (Sprintf_d (int n)) = int n"
  by (simp add: Sprintf_d_def digits_value_decimal)

lemma postProcess_streaming:
  assumes "200 \<le> StatusCode resp" "StatusCode resp < 300" "filterTextSnapshot c"
    and "isContentType (Header_Get (resp_Header resp) ''Content-Type'') ''text/event-stream''"
  shows "postProcess lib c resp =
     (case ReadAll (resp_Body resp) of
        (Inl err, drained) \<Rightarrow> Inr (resp\<lparr>resp_Body := drained\<rparr>)
      | (Inr respBody, drained) \<Rightarrow>
          Inr (replaceBody resp (fixStreamingResponse (json_Unmarshal lib) respBody)))"
  using assms by (simp add: postProcess_def replaceBody_drained split: prod.splits sum.splits)

lemma postProcess_error_status:
  assumes "300 \<le> StatusCode resp"
  shows "postProcess lib c resp =
     (case ReadAll (resp_Body resp) of
        (Inl err, drained) \<Rightarrow> Inl err
      | (Inr body, drained) \<Rightarrow> Inr (replaceBody resp body))"
  using assms by (simp add: postProcess_def replaceBody_drained split: prod.splits sum.splits)

lemma RoundTrip_read:
  assumes "ReadAll (req_Body req) = (Inr reqBody, drained)"
    and "transport lib c (forwarded lib c req) = Inr resp"
  shows "RoundTrip lib c req = postProcess lib c resp"
  using assms by (simp add: RoundTrip_def forwarded_def)

lemma unmodified_same:
  "\<not> snd (filterLines u (Split body LF) [] False) \<Longrightarrow> fixStreamingResponse u body = body"
  by (cases "filterLines u (Split body LF) [] False") (simp add: fixStreamingResponse_def)



subsection \<open>The claims about the response side\<close>

text \<open>
  C5, as amended. On a 2xx response whose content type matches
  \<^verbatim>\<open>text/event-stream\<close>, with the filter flag on and the body read in full, the hook
  calls \<^verbatim>\<open>replaceBody\<close> whether or not the filter dropped a line. When no line was
  dropped the body is replaced by the same bytes, the \<^verbatim>\<open>Content-Length\<close> header is set
  to their number, the \<^verbatim>\<open>Transfer-Encoding\<close> header is removed, and every other
  header stays as it was.
\<close>

theorem streaming_headers_rewritten_without_drop:
  assumes "200 \<le> StatusCode resp" and "StatusCode resp < 300"
    and "filterTextSnapshot c"
    and "isContentType (Header_Get (resp_Header resp) ''Content-Type'') ''text/event-stream''"
    and "ReadAll (resp_Body resp) = (Inr body, drained)"
    and "\<not> snd (filterLines (json_Unmarshal lib) (Split body LF) [] False)"
  shows "postProcess lib c resp =
     Inr (resp\<lparr>resp_Body := NopCloser body,
               resp_ContentLength := int (length body),
               resp_Header :=
                 (resp_Header resp)(''Content-Length'' \<mapsto> [Sprintf_d (int (length body))],
                                    ''Transfer-Encoding'' := None)\<rparr>)"
  using assms
  by (simp add: postProcess_streaming unmodified_same replaceBody_def Let_def
      Header_Set_def Header_Del_def)

lemma sse_done_kept:
  "filterLines go_Unmarshal (Split (''data: [DONE]'' @ [LF]) LF) [] False =
     ([''data: [DONE]'', []], False)"
  by code_simp

lemma sse_done_content_type:
  "isContentType (Header_Get (resp_Header resp_sse_done) ''Content-Type'') ''text/event-stream''"
  by code_simp

lemma Sprintf_d_13: "Sprintf_d 13 = ''13''"
  by code_simp

lemma sse_done_post:
  "postProcess (go_stdlib no_upstream) proxy resp_sse_done =
     Inr (replaceBody resp_sse_done (''data: [DONE]'' @ [LF]))"
proof -
  have "200 \<le> StatusCode resp_sse_done" "StatusCode resp_sse_done < 300"
    "filterTextSnapshot proxy"
    by (simp_all add: resp_sse_done_def proxy_def)
  moreover have "ReadAll (resp_Body resp_sse_done) =
      (Inr (''data: [DONE]'' @ [LF]), (resp_Body resp_sse_done)\<lparr>pending := []\<rparr>)"
    by (simp add: ReadAll_def resp_sse_done_def)
  moreover have "fixStreamingResponse go_Unmarshal (''data: [DONE]'' @ [LF]) = ''data: [DONE]'' @ [LF]"
    using sse_done_kept by (simp add: fixStreamingResponse_def)
  ultimately show ?thesis
    using sse_done_content_type
    by (simp add: postProcess_streaming [of resp_sse_done proxy] go_stdlib_def)
qed

text \<open>
  C5 as stated fails: a chunked stream that holds only the closing sentinel loses no
  line, and comes back with a \<^verbatim>\<open>Content-Length\<close> header it did not have and without
  its \<^verbatim>\<open>Transfer-Encoding\<close> header.
\<close>

theorem streaming_headers_untouched_counterexample:
  "\<not> snd (filterLines go_Unmarshal (Split (pending (resp_Body resp_sse_done)) LF) [] False) \<and>
   resp_Header resp_sse_done ''Content-Length'' = None \<and>
   resp_Header resp_sse_done ''Transfer-Encoding'' = Some [''chunked''] \<and>
   postProcess (go_stdlib no_upstream) proxy resp_sse_done =
     Inr (resp_sse_done\<lparr>resp_Body := NopCloser (''data: [DONE]'' @ [LF]),
            resp_ContentLength := 13,
            resp_Header := [''Content-Type'' \<mapsto> [''text/event-stream''],
                            ''Content-Length'' \<mapsto> [''13'']]\<rparr>)"
proof -
  have "\<not> snd (filterLines go_Unmarshal (Split (pending (resp_Body resp_sse_done)) LF) [] False)"
    using sse_done_kept by (simp add: resp_sse_done_def)
  moreover have "resp_Header resp_sse_done ''Content-Length'' = None"
    "resp_Header resp_sse_done ''Transfer-Encoding'' = Some [''chunked'']"
    by (simp_all add: resp_sse_done_def)
  moreover have "(resp_Header resp_sse_done)(''Content-Length'' \<mapsto> [''13''],
      ''Transfer-Encoding'' := None) =
      [''Content-Type'' \<mapsto> [''text/event-stream''], ''Content-Length'' \<mapsto> [''13'']]"
    by (auto simp: resp_sse_done_def)
  ultimately show ?thesis
    by (simp add: sse_done_post replaceBody_def Let_def Header_Set_def Header_Del_def Sprintf_d_13)
qed

lemma sse_hi_kept:
  \<open>filterLines go_Unmarshal (Split (''data: {"type":"text","text":"hi"}'' @ [LF]) LF) [] False =
     ([''data: {"type":"text","text":"hi"}'', []], False)\<close>
  by code_simp

lemma sse_hi_content_type:
  "isContentType (Header_Get (resp_Header resp_sse_hi) ''Content-Type'') ''text/event-stream''"
  by code_simp

lemma Sprintf_d_34: "Sprintf_d 34 = ''34''"
  by code_simp

theorem streaming_headers_rewritten_without_drop_witness:
  \<open>postProcess (go_stdlib no_upstream) proxy resp_sse_hi =
     Inr (resp_sse_hi\<lparr>resp_Body := NopCloser (''data: {"type":"text","text":"hi"}'' @ [LF]),
            resp_ContentLength := 34,
            resp_Header := [''Content-Type'' \<mapsto> [''text/event-stream; charset=utf-8''],
                            ''Content-Length'' \<mapsto> [''34'']]\<rparr>)\<close>
proof -
  let ?body = \<open>''data: {"type":"text","text":"hi"}'' @ [LF]\<close>
  have "200 \<le> StatusCode resp_sse_hi" "StatusCode resp_sse_hi < 300"
    "filterTextSnapshot proxy"
    by (simp_all add: resp_sse_hi_def proxy_def)
  moreover have "ReadAll (resp_Body resp_sse_hi) =
      (Inr ?body, (resp_Body resp_sse_hi)\<lparr>pending := []\<rparr>)"
    by (simp add: ReadAll_def resp_sse_hi_def)
  moreover have "\<not> snd (filterLines (json_Unmarshal (go_stdlib no_upstream))
      (Split ?body LF) [] False)"
    using sse_hi_kept by (simp add: go_stdlib_def)
  moreover have "(resp_Header resp_sse_hi)(''Content-Length'' \<mapsto> [''34''],
      ''Transfer-Encoding'' := None) =
      [''Content-Type'' \<mapsto> [''text/event-stream; charset=utf-8''],
       ''Content-Length'' \<mapsto> [''34'']]"
    by (auto simp: resp_sse_hi_def)
  ultimately show ?thesis
    using streaming_headers_rewritten_without_drop
      [of resp_sse_hi proxy ?body _ "go_stdlib no_upstream"] sse_hi_content_type
    by (simp add: Sprintf_d_34)
qed



text \<open>
  C7. Whenever the hook replaces a response body (the 2xx stream that was filtered, and
  every response of status 300 or more, the body read in full), the response comes back
  with the new body in a fresh reader, a \<^verbatim>\<open>Content-Length\<close> header that is the decimal
  numeral of the new body's length, the same length in the \<^verbatim>\<open>ContentLength\<close> field,
  and no \<^verbatim>\<open>Transfer-Encoding\<close> header. For a status of 300 or more the new body is
  the original one.
\<close>

theorem replaced_body_framing:
  assumes "ReadAll (resp_Body resp) = (Inr body, drained)"
    and "(200 \<le> StatusCode resp \<and> StatusCode resp < 300 \<and> filterTextSnapshot c \<and>
          isContentType (Header_Get (resp_Header resp) ''Content-Type'') ''text/event-stream'')
         \<or> 300 \<le> StatusCode resp"
  shows "\<exists>resp' newBody.
           postProcess lib c resp = Inr resp' \<and>
           newBody = (if 300 \<le> StatusCode resp then body
                      else fixStreamingResponse (json_Unmarshal lib) body) \<and>
           ReadAll (resp_Body resp') = (Inr newBody, NopCloser []) \<and>
           Header_Get (resp_Header resp') ''Content-Length'' = Sprintf_d (int (length newBody)) \<and>
           digits_value (Header_Get (resp_Header resp') ''Content-Length'') = int (length newBody) \<and>
           resp_ContentLength resp' = int (length newBody) \<and>
           resp_Header resp' ''Transfer-Encoding'' = None"
proof -
  let ?new = "if 300 \<le> StatusCode resp then body
              else fixStreamingResponse (json_Unmarshal lib) body"
  have post: "postProcess lib c resp = Inr (replaceBody resp ?new)"
  proof (cases "300 \<le> StatusCode resp")
    case True
    with assms(1) show ?thesis by (simp add: postProcess_error_status)
  next
    case False
    with assms show ?thesis by (simp add: postProcess_streaming)
  qed
  have "ReadAll (resp_Body (replaceBody resp ?new)) = (Inr ?new, NopCloser [])"
    by (simp only: replaceBody_fields ReadAll_NopCloser)
  moreover have "digits_value (Header_Get (resp_Header (replaceBody resp ?new)) ''Content-Length'')
      = int (length ?new)"
    by (simp only: replaceBody_Content_Length digits_value_Sprintf_d)
  ultimately show ?thesis
    using post replaceBody_Content_Length [of resp ?new]
      replaceBody_Transfer_Encoding [of resp ?new] replaceBody_fields(2) [of resp ?new]
    by blast
qed

lemma not_found_length: \<open>int (length ''{"error":"not found"}'') = 21\<close>
  by simp

lemma Sprintf_d_21: "Sprintf_d 21 = ''21''"
  by code_simp

lemma sse_snapshot_content_type:
  "isContentType (Header_Get (resp_Header resp_sse_snapshot) ''Content-Type'') ''text/event-stream''"
  by code_simp

theorem replaced_body_framing_witness:
  \<open>(\<exists>resp'. postProcess (go_stdlib no_upstream) proxy resp_not_found = Inr resp' \<and>
      ReadAll (resp_Body resp') = (Inr ''{"error":"not found"}'', NopCloser []) \<and>
      Header_Get (resp_Header resp') ''Content-Length'' = ''21'' \<and>
      resp_ContentLength resp' = 21 \<and>
      resp_Header resp' ''Transfer-Encoding'' = None) \<and>
   (\<exists>resp'. postProcess (go_stdlib no_upstream) proxy resp_sse_snapshot = Inr resp' \<and>
      ReadAll (resp_Body resp') = (Inr (''data: [DONE]'' @ [LF]), NopCloser []) \<and>
      Header_Get (resp_Header resp') ''Content-Length'' = ''13'' \<and>
      resp_ContentLength resp' = 13 \<and>
      resp_Header resp' ''Transfer-Encoding'' = None)\<close>
proof -
  have r1: \<open>ReadAll (resp_Body resp_not_found) =
      (Inr ''{"error":"not found"}'', (resp_Body resp_not_found)\<lparr>pending := []\<rparr>)\<close>
    by (simp add: ReadAll_def resp_not_found_def)
  have s1: "300 \<le> StatusCode resp_not_found"
    by (simp add: resp_not_found_def)
  have r2: "ReadAll (resp_Body resp_sse_snapshot) =
      (Inr sse_example, (resp_Body resp_sse_snapshot)\<lparr>pending := []\<rparr>)"
    by (simp add: ReadAll_def resp_sse_snapshot_def)
  have s2: "200 \<le> StatusCode resp_sse_snapshot \<and> StatusCode resp_sse_snapshot < 300 \<and>
      filterTextSnapshot proxy \<and> \<not> 300 \<le> StatusCode resp_sse_snapshot"
    by (simp add: resp_sse_snapshot_def resp_sse_done_def proxy_def)
  have u: "json_Unmarshal (go_stdlib no_upstream) = go_Unmarshal"
    by (simp add: go_stdlib_def)
  show ?thesis
    using replaced_body_framing [OF r1, of proxy "go_stdlib no_upstream"]
      replaced_body_framing [OF r2, of proxy "go_stdlib no_upstream"]
      s1 s2 sse_snapshot_content_type
    by (simp add: u sse_example_out Sprintf_d_21 Sprintf_d_13) blast
qed



text \<open>
  C9. When the inner transport answers with a status of 300 or more, the hook reads the
  whole body, which leaves the upstream reader empty. If the read succeeds,
  \<^verbatim>\<open>RoundTrip\<close> returns the response with the bytes that were read in a fresh reader
  in the place of the empty one, the content length and the \<^verbatim>\<open>Content-Length\<close>
  header set to their number and the \<^verbatim>\<open>Transfer-Encoding\<close> header removed: what
  the caller reads from the returned body is the original bytes, where the reader left
  by the read would give none. If the read fails with an error, \<^verbatim>\<open>RoundTrip\<close>
  returns that error and no response. (A request body that cannot be read does not fail
  the exchange: \<open>request_read_failure_recovered\<close> below.)
\<close>

theorem error_status_read_failure_escalates:
  assumes "ReadAll (req_Body req) = (Inr reqBody, drained)"
    and "transport lib c (forwarded lib c req) = Inr resp"
    and "300 \<le> StatusCode resp"
  shows "(failure (resp_Body resp) = None \<longrightarrow>
            RoundTrip lib c req =
              Inr (resp\<lparr>resp_Body := NopCloser (pending (resp_Body resp)),
                        resp_ContentLength := int (length (pending (resp_Body resp))),
                        resp_Header :=
                          (resp_Header resp)
                            (''Content-Length'' \<mapsto>
                               [Sprintf_d (int (length (pending (resp_Body resp))))],
                             ''Transfer-Encoding'' := None)\<rparr>) \<and>
            (\<exists>resp'. RoundTrip lib c req = Inr resp' \<and>
               ReadAll (resp_Body resp') = (Inr (pending (resp_Body resp)), NopCloser [])) \<and>
            fst (ReadAll (snd (ReadAll (resp_Body resp)))) = Inr []) \<and>
         (\<forall>err. failure (resp_Body resp) = Some err \<longrightarrow> RoundTrip lib c req = Inl err)"
proof -
  have post: "RoundTrip lib c req = postProcess lib c resp"
    using assms(1,2) by (rule RoundTrip_read)
  have ok: "postProcess lib c resp = Inr (replaceBody resp (pending (resp_Body resp)))"
    if "failure (resp_Body resp) = None"
    using that assms(3) by (simp add: postProcess_error_status ReadAll_ok)
  have explicit: "replaceBody resp (pending (resp_Body resp)) =
      resp\<lparr>resp_Body := NopCloser (pending (resp_Body resp)),
           resp_ContentLength := int (length (pending (resp_Body resp))),
           resp_Header :=
             (resp_Header resp)
               (''Content-Length'' \<mapsto> [Sprintf_d (int (length (pending (resp_Body resp))))],
                ''Transfer-Encoding'' := None)\<rparr>"
    by (simp add: replaceBody_def Let_def Header_Set_def Header_Del_def)
  have fresh: "ReadAll (resp_Body (replaceBody resp (pending (resp_Body resp)))) =
      (Inr (pending (resp_Body resp)), NopCloser [])"
    by (simp only: replaceBody_fields ReadAll_NopCloser)
  have empty: "fst (ReadAll (snd (ReadAll (resp_Body resp)))) = Inr []"
    if "failure (resp_Body resp) = None"
    using that by (simp add: ReadAll_drained)
  have fails: "postProcess lib c resp = Inl err" if "failure (resp_Body resp) = Some err" for err
    using that assms(3) by (simp add: postProcess_error_status ReadAll_fails)
  show ?thesis
    using post ok explicit fresh empty fails by metis
qed

lemma request_read_failure_recovered:
  assumes "failure (req_Body req) = Some err"
  shows "RoundTrip lib c req = transport lib c (req\<lparr>req_Body := (req_Body req)\<lparr>pending := []\<rparr>\<rparr>)"
  using assms by (simp add: RoundTrip_def ReadAll_fails)

lemma get_request_forwarded:
  "forwarded lib proxy get_request = get_request\<lparr>req_Body := NopCloser []\<rparr>"
  by (simp add: forwarded_def ReadAll_def get_request_def remapModel_def Let_def)

lemma transport_default: "transport (go_stdlib rt) proxy = rt"
  by (simp add: transport_def proxy_def go_stdlib_def)

theorem error_status_read_failure_escalates_witness:
  \<open>RoundTrip (go_stdlib (upstream_of resp_bad_gateway)) proxy get_request =
     Inl (Error ''connection reset by peer'') \<and>
   RoundTrip (go_stdlib (upstream_of resp_not_found)) proxy get_request =
     Inr (resp_not_found
            \<lparr>resp_Body := NopCloser ''{"error":"not found"}'',
             resp_ContentLength := 21,
             resp_Header := [''Content-Type'' \<mapsto> [''application/json''],
                             ''Content-Length'' \<mapsto> [''21'']]\<rparr>) \<and>
   fst (ReadAll (snd (ReadAll (resp_Body resp_not_found)))) = Inr []\<close>
proof -
  have r: "ReadAll (req_Body get_request) = (Inr [], (req_Body get_request)\<lparr>pending := []\<rparr>)"
    by (simp add: ReadAll_def get_request_def)
  have t1: "transport (go_stdlib (upstream_of resp_bad_gateway)) proxy
      (forwarded (go_stdlib (upstream_of resp_bad_gateway)) proxy get_request) = Inr resp_bad_gateway"
    by (simp add: transport_default upstream_of_def)
  have t2: "transport (go_stdlib (upstream_of resp_not_found)) proxy
      (forwarded (go_stdlib (upstream_of resp_not_found)) proxy get_request) = Inr resp_not_found"
    by (simp add: transport_default upstream_of_def)
  have s1: "300 \<le> StatusCode resp_bad_gateway" by (simp add: resp_bad_gateway_def)
  have s2: "300 \<le> StatusCode resp_not_found" by (simp add: resp_not_found_def)
  have f1: "failure (resp_Body resp_bad_gateway) = Some (Error ''connection reset by peer'')"
    by (simp add: resp_bad_gateway_def)
  have f2: \<open>failure (resp_Body resp_not_found) = None\<close>
    \<open>pending (resp_Body resp_not_found) = ''{"error":"not found"}''\<close>
    by (simp_all add: resp_not_found_def)
  have h: "(resp_Header resp_not_found)(''Content-Length'' \<mapsto> [''21''],
      ''Transfer-Encoding'' := None) =
      [''Content-Type'' \<mapsto> [''application/json''], ''Content-Length'' \<mapsto> [''21'']]"
    by (auto simp: resp_not_found_def)
  have a: "RoundTrip (go_stdlib (upstream_of resp_bad_gateway)) proxy get_request =
      Inl (Error ''connection reset by peer'')"
    using error_status_read_failure_escalates [OF r t1 s1] f1 by simp
  have b: \<open>RoundTrip (go_stdlib (upstream_of resp_not_found)) proxy get_request =
      Inr (resp_not_found
            \<lparr>resp_Body := NopCloser ''{"error":"not found"}'',
             resp_ContentLength := 21,
             resp_Header := [''Content-Type'' \<mapsto> [''application/json''],
                             ''Content-Length'' \<mapsto> [''21'']]\<rparr>) \<and>
      fst (ReadAll (snd (ReadAll (resp_Body resp_not_found)))) = Inr []\<close>
    using error_status_read_failure_escalates [OF r t2 s2] f2
    by (simp add: Sprintf_d_21 h)
  from a b show ?thesis by simp
qed

text \<open>
  C10. On the streaming path (2xx, filter flag on, content type matching
  \<^verbatim>\<open>text/event-stream\<close>) a failure to read the response body is not reported:
  \<^verbatim>\<open>RoundTrip\<close> returns the response with no error, its body still the upstream
  reader (now drained), its headers and content length as they came.
\<close>

theorem streaming_read_failure_swallowed:
  assumes "ReadAll (req_Body req) = (Inr reqBody, drained)"
    and "transport lib c (forwarded lib c req) = Inr resp"
    and "200 \<le> StatusCode resp" and "StatusCode resp < 300"
    and "filterTextSnapshot c"
    and "isContentType (Header_Get (resp_Header resp) ''Content-Type'') ''text/event-stream''"
    and "failure (resp_Body resp) = Some err"
  shows "RoundTrip lib c req = Inr (resp\<lparr>resp_Body := (resp_Body resp)\<lparr>pending := []\<rparr>\<rparr>)"
  using assms
  by (simp add: RoundTrip_read postProcess_streaming ReadAll_fails)

lemma sse_broken_content_type:
  "isContentType (Header_Get (resp_Header resp_sse_broken) ''Content-Type'') ''text/event-stream''"
  by code_simp

theorem streaming_read_failure_swallowed_witness:
  "RoundTrip (go_stdlib (upstream_of resp_sse_broken)) proxy get_request =
     Inr (resp_sse_broken\<lparr>resp_Body :=
            \<lparr>pending = [], failure = Some (Error ''unexpected EOF'')\<rparr>\<rparr>)"
proof -
  have r: "ReadAll (req_Body get_request) = (Inr [], (req_Body get_request)\<lparr>pending := []\<rparr>)"
    by (simp add: ReadAll_def get_request_def)
  have t: "transport (go_stdlib (upstream_of resp_sse_broken)) proxy
      (forwarded (go_stdlib (upstream_of resp_sse_broken)) proxy get_request) = Inr resp_sse_broken"
    by (simp add: transport_default upstream_of_def)
  have s: "200 \<le> StatusCode resp_sse_broken" "StatusCode resp_sse_broken < 300"
    by (simp_all add: resp_sse_broken_def resp_sse_done_def)
  have p: "filterTextSnapshot proxy" by (simp add: proxy_def)
  have f: "failure (resp_Body resp_sse_broken) = Some (Error ''unexpected EOF'')"
    by (simp add: resp_sse_broken_def)
  have b: "(resp_Body resp_sse_broken)\<lparr>pending := []\<rparr> =
      \<lparr>pending = [], failure = Some (Error ''unexpected EOF'')\<rparr>"
    by (simp add: resp_sse_broken_def)
  show ?thesis
    using streaming_read_failure_swallowed [OF r t s p sse_broken_content_type f]
    by (simp add: b)
qed

subsection \<open>The request side\<close>

lemma remapModel_not_applicable:
  assumes "Method req \<noteq> ''POST'' \<or>
     \<not> (Header_Get (req_Header req) ''Content-Type'' = ''application/json'' \<or>
        HasPrefix (Header_Get (req_Header req) ''Content-Type'') ''application/json;'') \<or>
     json_Unmarshal lib body = None \<or>
     (\<exists>data. json_Unmarshal lib body = Some data \<and>
        (\<forall>model. map_of data ''model'' \<noteq> Some (JString model))) \<or>
     (\<exists>data model. json_Unmarshal lib body = Some data \<and>
        map_of data ''model'' = Some (JString model) \<and> modelMap c model = None)"
  shows "remapModel lib c body req = req"
  using assms
  by (auto simp: remapModel_def Let_def split: option.splits jvalue.splits)

lemma remapModel_applied:
  assumes "Method req = ''POST''"
    and "Header_Get (req_Header req) ''Content-Type'' = ''application/json'' \<or>
         HasPrefix (Header_Get (req_Header req) ''Content-Type'') ''application/json;''"
    and "json_Unmarshal lib body = Some data"
    and "map_of data ''model'' = Some (JString model)"
    and "modelMap c model = Some newModel"
    and "json_Marshal lib (AList.update ''model'' (JString newModel) data) = Some modifiedBody"
  shows "remapModel lib c body req =
     req\<lparr>req_Body := NopCloser modifiedBody, req_ContentLength := int (length modifiedBody)\<rparr>"
  using assms by (auto simp: remapModel_def Let_def)

lemma forwarded_read:
  "ReadAll (req_Body req) = (Inr body, drained) \<Longrightarrow>
   forwarded lib c req = remapModel lib c body (req\<lparr>req_Body := NopCloser body\<rparr>)"
  by (simp add: forwarded_def)

lemma RoundTrip_forwarded:
  "ReadAll (req_Body req) = (Inr body, drained) \<Longrightarrow>
   RoundTrip lib c req =
     (case transport lib c (forwarded lib c req) of
        Inl err \<Rightarrow> Inl err
      | Inr resp \<Rightarrow> postProcess lib c resp)"
  by (simp add: RoundTrip_def forwarded_def)

text \<open>
  C4. When the request body has been read and a precondition of the remap fails (the
  method is not POST; the content type is neither \<^verbatim>\<open>application/json\<close> nor begins
  with \<^verbatim>\<open>application/json;\<close>; the body does not decode as an object; the object has
  no string under \<^verbatim>\<open>model\<close>; the string is not a key of the mapping table), the
  request goes to the inner transport with the bytes that were read, in a fresh reader,
  and with its content length and everything else as it came. Nothing is rejected: the
  result of \<^verbatim>\<open>RoundTrip\<close> is what the transport and the response side make of that
  request.
\<close>

theorem request_without_remap_forwarded_unchanged:
  assumes "ReadAll (req_Body req) = (Inr body, drained)"
    and "Method req \<noteq> ''POST'' \<or>
     \<not> (Header_Get (req_Header req) ''Content-Type'' = ''application/json'' \<or>
        HasPrefix (Header_Get (req_Header req) ''Content-Type'') ''application/json;'') \<or>
     json_Unmarshal lib body = None \<or>
     (\<exists>data. json_Unmarshal lib body = Some data \<and>
        (\<forall>model. map_of data ''model'' \<noteq> Some (JString model))) \<or>
     (\<exists>data model. json_Unmarshal lib body = Some data \<and>
        map_of data ''model'' = Some (JString model) \<and> modelMap c model = None)"
  shows "forwarded lib c req = req\<lparr>req_Body := NopCloser body\<rparr> \<and>
         ReadAll (req_Body (forwarded lib c req)) = (Inr body, NopCloser []) \<and>
         req_ContentLength (forwarded lib c req) = req_ContentLength req \<and>
         RoundTrip lib c req =
           (case transport lib c (req\<lparr>req_Body := NopCloser body\<rparr>) of
              Inl err \<Rightarrow> Inl err
            | Inr resp \<Rightarrow> postProcess lib c resp)"
proof -
  have "remapModel lib c body (req\<lparr>req_Body := NopCloser body\<rparr>) = req\<lparr>req_Body := NopCloser body\<rparr>"
    using assms(2) by (intro remapModel_not_applicable) simp
  with assms(1) have fwd: "forwarded lib c req = req\<lparr>req_Body := NopCloser body\<rparr>"
    by (simp add: forwarded_read)
  then show ?thesis
    using RoundTrip_forwarded [OF assms(1), of lib c] by (simp add: ReadAll_NopCloser)
qed

text \<open>
  C3, as amended. For a POST request with a JSON content type whose body decodes as an
  object with a string under \<^verbatim>\<open>model\<close> that the mapping table maps, the body
  forwarded is \<^verbatim>\<open>json.Marshal\<close> of the decoded object with the mapped name stored
  under \<^verbatim>\<open>model\<close> and every other key holding the value decoded from the input;
  the content length of the request is the length of that text; and this request is the
  one \<^verbatim>\<open>RoundTrip\<close> hands to the inner transport. The text of the other fields is
  written from their decoded values and is not promised to be the input's.
  (\<^verbatim>\<open>json.Marshal\<close> returns an error only for values that have no JSON form, which
  decoding does not produce; its success is a hypothesis here, the codec being a
  parameter.)
\<close>

theorem remapped_request_forwarded:
  assumes "ReadAll (req_Body req) = (Inr body, drained)"
    and "Method req = ''POST''"
    and "Header_Get (req_Header req) ''Content-Type'' = ''application/json'' \<or>
         HasPrefix (Header_Get (req_Header req) ''Content-Type'') ''application/json;''"
    and "json_Unmarshal lib body = Some data"
    and "map_of data ''model'' = Some (JString model)"
    and "modelMap c model = Some newModel"
    and "json_Marshal lib (AList.update ''model'' (JString newModel) data) = Some modifiedBody"
  shows "forwarded lib c req =
           req\<lparr>req_Body := NopCloser modifiedBody,
               req_ContentLength := int (length modifiedBody)\<rparr> \<and>
         ReadAll (req_Body (forwarded lib c req)) = (Inr modifiedBody, NopCloser []) \<and>
         req_ContentLength (forwarded lib c req) = int (length modifiedBody) \<and>
         json_Marshal lib (AList.update ''model'' (JString newModel) data) =
           Some (pending (req_Body (forwarded lib c req))) \<and>
         map_of (AList.update ''model'' (JString newModel) data) ''model'' =
           Some (JString newModel) \<and>
         (\<forall>k. k \<noteq> ''model'' \<longrightarrow>
            map_of (AList.update ''model'' (JString newModel) data) k = map_of data k) \<and>
         RoundTrip lib c req =
           (case transport lib c
                   (req\<lparr>req_Body := NopCloser modifiedBody,
                        req_ContentLength := int (length modifiedBody)\<rparr>) of
              Inl err \<Rightarrow> Inl err
            | Inr resp \<Rightarrow> postProcess lib c resp)"
proof -
  have "remapModel lib c body (req\<lparr>req_Body := NopCloser body\<rparr>) =
      req\<lparr>req_Body := NopCloser modifiedBody, req_ContentLength := int (length modifiedBody)\<rparr>"
    using assms(2-7) by (simp add: remapModel_applied [where data = data and model = model])
  with assms(1) have fwd: "forwarded lib c req =
      req\<lparr>req_Body := NopCloser modifiedBody, req_ContentLength := int (length modifiedBody)\<rparr>"
    by (simp add: forwarded_read)
  have "pending (req_Body (forwarded lib c req)) = modifiedBody"
    by (simp add: fwd NopCloser_def)
  with assms(7) have enc: "json_Marshal lib (AList.update ''model'' (JString newModel) data) =
      Some (pending (req_Body (forwarded lib c req)))"
    by simp
  have rt: "RoundTrip lib c req =
      (case transport lib c
              (req\<lparr>req_Body := NopCloser modifiedBody,
                   req_ContentLength := int (length modifiedBody)\<rparr>) of
         Inl err \<Rightarrow> Inl err
       | Inr resp \<Rightarrow> postProcess lib c resp)"
    using RoundTrip_forwarded [OF assms(1), of lib c] by (simp add: fwd)
  show ?thesis
    using enc rt by (simp add: fwd ReadAll_NopCloser update_conv')
qed

text \<open>
  C6, as amended. When the model is remapped the whole body has been decoded into
  generic values (\<^verbatim>\<open>map[string]interface{}\<close>: every number a float64, every nested
  object a map) and the body forwarded is the encoding of a decoded object: one with the
  same keys as the object decoded from the input, the mapped name under \<^verbatim>\<open>model\<close>,
  and under every other key the value that was decoded. The rewrite itself changes
  nothing but \<^verbatim>\<open>model\<close>; the text of the other fields is written anew from their
  decoded values.
\<close>

theorem remap_reencodes_decoded_object:
  assumes "ReadAll (req_Body req) = (Inr body, drained)"
    and "Method req = ''POST''"
    and "Header_Get (req_Header req) ''Content-Type'' = ''application/json'' \<or>
         HasPrefix (Header_Get (req_Header req) ''Content-Type'') ''application/json;''"
    and "json_Unmarshal lib body = Some data"
    and "map_of data ''model'' = Some (JString model)"
    and "modelMap c model = Some newModel"
    and "json_Marshal lib (AList.update ''model'' (JString newModel) data) = Some modifiedBody"
  shows "\<exists>data'. json_Marshal lib data' = Some (pending (req_Body (forwarded lib c req))) \<and>
           dom (map_of data') = dom (map_of data) \<and>
           map_of data' ''model'' = Some (JString newModel) \<and>
           (\<forall>k. k \<noteq> ''model'' \<longrightarrow> map_of data' k = map_of data k)"
proof -
  let ?data' = "AList.update ''model'' (JString newModel) data"
  have "remapModel lib c body (req\<lparr>req_Body := NopCloser body\<rparr>) =
      req\<lparr>req_Body := NopCloser modifiedBody, req_ContentLength := int (length modifiedBody)\<rparr>"
    using assms(2-7) by (simp add: remapModel_applied [where data = data and model = model])
  with assms(1) have "pending (req_Body (forwarded lib c req)) = modifiedBody"
    by (simp add: forwarded_read NopCloser_def)
  with assms(7) have "json_Marshal lib ?data' = Some (pending (req_Body (forwarded lib c req)))"
    by simp
  moreover have "dom (map_of ?data') = dom (map_of data)"
    using assms(5) by (auto simp: update_conv' dom_def)
  moreover have "map_of ?data' ''model'' = Some (JString newModel)"
    by (simp add: update_conv')
  moreover have "\<forall>k. k \<noteq> ''model'' \<longrightarrow> map_of ?data' k = map_of data k"
    by (simp add: update_conv')
  ultimately show ?thesis by blast
qed

subsection \<open>The worked requests, evaluated\<close>

lemma post_request_read:
  "ReadAll (req_Body (post_request ct body)) =
     (Inr body, (req_Body (post_request ct body))\<lparr>pending := []\<rparr>)"
  by (simp add: ReadAll_def post_request_def)

lemma post_request_fields:
  "Method (post_request ct body) = ''POST''"
  "Header_Get (req_Header (post_request ct body)) ''Content-Type'' = ct"
  "req_ContentLength (post_request ct body) = int (length body)"
  by (simp_all add: post_request_def Header_Get_def)

lemma go_stdlib_fields:
  "json_Unmarshal (go_stdlib rt) = go_Unmarshal"
  "json_Marshal (go_stdlib rt) = go_Marshal"
  by (simp_all add: go_stdlib_def)

lemma proxy_modelMap:
  "modelMap proxy ''some-dangerous-model'' = Some ''less-safe-model''"
  "modelMap proxy ''some-other-model'' = None"
  by (simp_all add: proxy_def)

lemma decode_dangerous:
  "go_Unmarshal body_dangerous = Some [(''model'', JString ''some-dangerous-model'')]"
  by code_simp

lemma encode_less_safe:
  \<open>go_Marshal [(''model'', JString ''less-safe-model'')] = Some ''{"model":"less-safe-model"}''\<close>
  by code_simp

lemma decode_other_model:
  "go_Unmarshal body_other_model = Some [(''model'', JString ''some-other-model'')]"
  by code_simp

lemma decode_model_number:
  "go_Unmarshal body_model_number = Some [(''model'', JNumber 123)]"
  by code_simp

lemma decode_no_model:
  "go_Unmarshal body_no_model = Some [(''other_field'', JString ''some-value'')]"
  by code_simp

lemma decode_malformed: "go_Unmarshal body_malformed = None"
  by code_simp

lemma decode_big_number:
  "go_Unmarshal body_big_number =
     Some [(''model'', JString ''some-dangerous-model''), (''max_tokens'', JNumber 9007199254740992)]"
  by code_simp

lemma encode_big_number:
  \<open>go_Marshal [(''model'', JString ''less-safe-model''), (''max_tokens'', JNumber 9007199254740992)] =
     Some ''{"max_tokens":9007199254740992,"model":"less-safe-model"}''\<close>
  by code_simp

lemma content_type_charset: "HasPrefix ''application/json; charset=utf-8'' ''application/json;''"
  by (simp add: HasPrefix_def)

lemma content_type_invalid:
  "''application/jsoninvalid'' \<noteq> ''application/json''"
  "\<not> HasPrefix ''application/jsoninvalid'' ''application/json;''"
  by (simp_all add: HasPrefix_def)

lemma decode_with_fields:
  "go_Unmarshal body_with_fields =
     Some [(''model'', JString ''some-dangerous-model''), (''stream'', JBool True),
           (''max_tokens'', JNumber 1024)]"
  by code_simp

lemma encode_with_fields:
  \<open>go_Marshal [(''model'', JString ''less-safe-model''), (''stream'', JBool True),
               (''max_tokens'', JNumber 1024)] =
     Some ''{"max_tokens":1024,"model":"less-safe-model","stream":true}''\<close>
  by code_simp

lemma decode_seed:
  "go_Unmarshal body_seed =
     Some [(''model'', JString ''some-dangerous-model''), (''seed'', JNumber (- 9007199254740992))]"
  by code_simp

lemma encode_seed:
  \<open>go_Marshal [(''model'', JString ''less-safe-model''), (''seed'', JNumber (- 9007199254740992))] =
     Some ''{"model":"less-safe-model","seed":-9007199254740992}''\<close>
  by code_simp

lemma echo_upstream_answer:
  "postProcess lib proxy
     \<lparr>StatusCode = 200, resp_Header = Map.empty, resp_Body = NopCloser b, resp_ContentLength = 0\<rparr> =
   Inr \<lparr>StatusCode = 200, resp_Header = Map.empty, resp_Body = NopCloser b, resp_ContentLength = 0\<rparr>"
  by (simp add: postProcess_def isContentType_def Header_Get_def HasPrefix_def)

theorem remapped_request_forwarded_witness:
  \<open>forwarded (go_stdlib echo_upstream) proxy (post_request ''application/json'' body_dangerous) =
     (post_request ''application/json'' body_dangerous)
       \<lparr>req_Body := NopCloser ''{"model":"less-safe-model"}'', req_ContentLength := 27\<rparr> \<and>
   forwarded (go_stdlib echo_upstream) proxy
       (post_request ''application/json; charset=utf-8'' body_with_fields) =
     (post_request ''application/json; charset=utf-8'' body_with_fields)
       \<lparr>req_Body := NopCloser ''{"max_tokens":1024,"model":"less-safe-model","stream":true}'',
        req_ContentLength := 59\<rparr> \<and>
   RoundTrip (go_stdlib echo_upstream) proxy
       (post_request ''application/json; charset=utf-8'' body_with_fields) =
     Inr \<lparr>StatusCode = 200, resp_Header = Map.empty,
          resp_Body = NopCloser ''{"max_tokens":1024,"model":"less-safe-model","stream":true}'',
          resp_ContentLength = 0\<rparr>\<close>
proof -
  let ?lib = "go_stdlib echo_upstream"
  have m: \<open>json_Marshal ?lib
      (AList.update ''model'' (JString ''less-safe-model'') [(''model'', JString ''some-dangerous-model'')])
      = Some ''{"model":"less-safe-model"}''\<close>
    by (simp add: go_stdlib_fields encode_less_safe)
  have u: "json_Unmarshal ?lib body_dangerous =
      Some [(''model'', JString ''some-dangerous-model'')]"
    by (simp add: go_stdlib_fields decode_dangerous)
  have k: "map_of [(''model'', JString ''some-dangerous-model'')] ''model'' =
      Some (JString ''some-dangerous-model'')"
    by simp
  have m2: \<open>json_Marshal ?lib
      (AList.update ''model'' (JString ''less-safe-model'')
        [(''model'', JString ''some-dangerous-model''), (''stream'', JBool True),
         (''max_tokens'', JNumber 1024)])
      = Some ''{"max_tokens":1024,"model":"less-safe-model","stream":true}''\<close>
    by (simp add: go_stdlib_fields encode_with_fields)
  have u2: "json_Unmarshal ?lib body_with_fields =
      Some [(''model'', JString ''some-dangerous-model''), (''stream'', JBool True),
            (''max_tokens'', JNumber 1024)]"
    by (simp add: go_stdlib_fields decode_with_fields)
  have k2: "map_of [(''model'', JString ''some-dangerous-model''), (''stream'', JBool True),
      (''max_tokens'', JNumber 1024)] ''model'' = Some (JString ''some-dangerous-model'')"
    by simp
  have 1: \<open>forwarded ?lib proxy (post_request ''application/json'' body_dangerous) =
     (post_request ''application/json'' body_dangerous)
       \<lparr>req_Body := NopCloser ''{"model":"less-safe-model"}'', req_ContentLength := 27\<rparr>\<close>
    using remapped_request_forwarded
        [OF post_request_read post_request_fields(1) _ u k proxy_modelMap(1) m,
          of "''application/json''"]
    by (simp add: post_request_fields)
  have 2: \<open>forwarded ?lib proxy (post_request ''application/json; charset=utf-8'' body_with_fields) =
     (post_request ''application/json; charset=utf-8'' body_with_fields)
       \<lparr>req_Body := NopCloser ''{"max_tokens":1024,"model":"less-safe-model","stream":true}'',
        req_ContentLength := 59\<rparr> \<and>
     RoundTrip ?lib proxy (post_request ''application/json; charset=utf-8'' body_with_fields) =
     Inr \<lparr>StatusCode = 200, resp_Header = Map.empty,
          resp_Body = NopCloser ''{"max_tokens":1024,"model":"less-safe-model","stream":true}'',
          resp_ContentLength = 0\<rparr>\<close>
    using remapped_request_forwarded
        [OF post_request_read post_request_fields(1) _ u2 k2 proxy_modelMap(1) m2,
          of "''application/json; charset=utf-8''"]
    by (simp add: post_request_fields content_type_charset transport_default
        echo_upstream_def ReadAll_NopCloser echo_upstream_answer)
  from 1 2 show ?thesis by simp
qed

text \<open>
  C3 as stated fails where it promises the contents of the other fields unchanged in the
  forwarded body: the test's transport receives \<^verbatim>\<open>seed\<close> as -9007199254740992
  where the client sent -9007199254740993.
\<close>

theorem remapped_other_fields_unchanged_counterexample:
  \<open>pending (req_Body (post_request ''application/json'' body_seed)) =
     ''{"model":"some-dangerous-model","seed":-9007199254740993}'' \<and>
   req_Body (forwarded (go_stdlib echo_upstream) proxy (post_request ''application/json'' body_seed)) =
     NopCloser ''{"model":"less-safe-model","seed":-9007199254740992}'' \<and>
   RoundTrip (go_stdlib echo_upstream) proxy (post_request ''application/json'' body_seed) =
     Inr \<lparr>StatusCode = 200, resp_Header = Map.empty,
          resp_Body = NopCloser ''{"model":"less-safe-model","seed":-9007199254740992}'',
          resp_ContentLength = 0\<rparr>\<close>
proof -
  let ?lib = "go_stdlib echo_upstream"
  let ?req = "post_request ''application/json'' body_seed"
  let ?out = \<open>''{"model":"less-safe-model","seed":-9007199254740992}''\<close>
  have m: "json_Marshal ?lib
      (AList.update ''model'' (JString ''less-safe-model'')
        [(''model'', JString ''some-dangerous-model''), (''seed'', JNumber (- 9007199254740992))])
      = Some ?out"
    by (simp add: go_stdlib_fields encode_seed)
  have "remapModel ?lib proxy body_seed (?req\<lparr>req_Body := NopCloser body_seed\<rparr>) =
      ?req\<lparr>req_Body := NopCloser ?out, req_ContentLength := int (length ?out)\<rparr>"
    using remapModel_applied [OF _ _ _ _ proxy_modelMap(1) m,
        of "?req\<lparr>req_Body := NopCloser body_seed\<rparr>" body_seed]
    by (simp add: go_stdlib_fields decode_seed post_request_def Header_Get_def)
  then have fwd: "forwarded ?lib proxy ?req =
      ?req\<lparr>req_Body := NopCloser ?out, req_ContentLength := int (length ?out)\<rparr>"
    by (simp add: forwarded_read [OF post_request_read])
  have rt: "RoundTrip ?lib proxy ?req =
      Inr \<lparr>StatusCode = 200, resp_Header = Map.empty, resp_Body = NopCloser ?out,
           resp_ContentLength = 0\<rparr>"
    using RoundTrip_forwarded [OF post_request_read, where lib = ?lib and c = proxy]
    by (simp add: fwd transport_default echo_upstream_def ReadAll_NopCloser echo_upstream_answer)
  have "pending (req_Body ?req) = ''{\"model\":\"some-dangerous-model\",\"seed\":-9007199254740993}''"
    by (simp add: post_request_def body_seed_def)
  with fwd rt show ?thesis by simp
qed

theorem request_without_remap_forwarded_unchanged_witness:
  "forwarded (go_stdlib no_upstream) proxy (post_request ''application/jsoninvalid'' body_dangerous) =
     (post_request ''application/jsoninvalid'' body_dangerous)\<lparr>req_Body := NopCloser body_dangerous\<rparr> \<and>
   forwarded (go_stdlib no_upstream) proxy (post_request ''application/json'' body_malformed) =
     (post_request ''application/json'' body_malformed)\<lparr>req_Body := NopCloser body_malformed\<rparr> \<and>
   forwarded (go_stdlib no_upstream) proxy (post_request ''application/json'' body_other_model) =
     (post_request ''application/json'' body_other_model)\<lparr>req_Body := NopCloser body_other_model\<rparr> \<and>
   forwarded (go_stdlib no_upstream) proxy (post_request ''application/json'' body_model_number) =
     (post_request ''application/json'' body_model_number)\<lparr>req_Body := NopCloser body_model_number\<rparr> \<and>
   forwarded (go_stdlib no_upstream) proxy (post_request ''application/json'' body_no_model) =
     (post_request ''application/json'' body_no_model)\<lparr>req_Body := NopCloser body_no_model\<rparr> \<and>
   forwarded (go_stdlib no_upstream) proxy
       ((post_request ''application/json'' body_dangerous)\<lparr>Method := ''PUT''\<rparr>) =
     (post_request ''application/json'' body_dangerous)
       \<lparr>Method := ''PUT'', req_Body := NopCloser body_dangerous\<rparr> \<and>
   RoundTrip (go_stdlib no_upstream) proxy (post_request ''application/json'' body_malformed) =
     Inl (Error ''no upstream'')"
proof -
  let ?lib = "go_stdlib no_upstream"
  have 1: "forwarded ?lib proxy (post_request ''application/jsoninvalid'' body_dangerous) =
     (post_request ''application/jsoninvalid'' body_dangerous)\<lparr>req_Body := NopCloser body_dangerous\<rparr>"
    using request_without_remap_forwarded_unchanged
      [OF post_request_read, of "''application/jsoninvalid''" body_dangerous ?lib proxy]
    by (simp add: post_request_fields content_type_invalid)
  have 2: "forwarded ?lib proxy (post_request ''application/json'' body_malformed) =
     (post_request ''application/json'' body_malformed)\<lparr>req_Body := NopCloser body_malformed\<rparr> \<and>
     RoundTrip ?lib proxy (post_request ''application/json'' body_malformed) =
       Inl (Error ''no upstream'')"
    using request_without_remap_forwarded_unchanged
      [OF post_request_read, of "''application/json''" body_malformed ?lib proxy]
    by (simp add: go_stdlib_fields decode_malformed transport_default no_upstream_def)
  have 3: "forwarded ?lib proxy (post_request ''application/json'' body_other_model) =
     (post_request ''application/json'' body_other_model)\<lparr>req_Body := NopCloser body_other_model\<rparr>"
    using request_without_remap_forwarded_unchanged
      [OF post_request_read, of "''application/json''" body_other_model ?lib proxy]
    by (simp add: go_stdlib_fields decode_other_model proxy_modelMap)
  have 4: "forwarded ?lib proxy (post_request ''application/json'' body_model_number) =
     (post_request ''application/json'' body_model_number)\<lparr>req_Body := NopCloser body_model_number\<rparr>"
    using request_without_remap_forwarded_unchanged
      [OF post_request_read, of "''application/json''" body_model_number ?lib proxy]
    by (simp add: go_stdlib_fields decode_model_number)
  have 5: "forwarded ?lib proxy (post_request ''application/json'' body_no_model) =
     (post_request ''application/json'' body_no_model)\<lparr>req_Body := NopCloser body_no_model\<rparr>"
    using request_without_remap_forwarded_unchanged
      [OF post_request_read, of "''application/json''" body_no_model ?lib proxy]
    by (simp add: go_stdlib_fields decode_no_model)
  have 6: "forwarded ?lib proxy
       ((post_request ''application/json'' body_dangerous)\<lparr>Method := ''PUT''\<rparr>) =
     (post_request ''application/json'' body_dangerous)
       \<lparr>Method := ''PUT'', req_Body := NopCloser body_dangerous\<rparr>"
    using request_without_remap_forwarded_unchanged
      [of "(post_request ''application/json'' body_dangerous)\<lparr>Method := ''PUT''\<rparr>"
          body_dangerous _ ?lib proxy]
    by (simp add: ReadAll_def post_request_def)
  from 1 2 3 4 5 6 show ?thesis by simp
qed

text \<open>
  C6 as stated fails: the values of the other fields are decoded, and what decoding
  loses is lost. The integer 9007199254740993 is not a float64; it is decoded to
  9007199254740992 and forwarded as that.
\<close>

theorem other_fields_text_preserved_counterexample:
  \<open>pending (req_Body (post_request ''application/json'' body_big_number)) =
     ''{"model":"some-dangerous-model","max_tokens":9007199254740993}'' \<and>
   req_Body (forwarded (go_stdlib no_upstream) proxy (post_request ''application/json'' body_big_number)) =
     NopCloser ''{"max_tokens":9007199254740992,"model":"less-safe-model"}''\<close>
proof -
  have m: \<open>json_Marshal (go_stdlib no_upstream)
      (AList.update ''model'' (JString ''less-safe-model'')
        [(''model'', JString ''some-dangerous-model''), (''max_tokens'', JNumber 9007199254740992)])
      = Some ''{"max_tokens":9007199254740992,"model":"less-safe-model"}''\<close>
    by (simp add: go_stdlib_fields encode_big_number)
  have \<open>remapModel (go_stdlib no_upstream) proxy body_big_number
      ((post_request ''application/json'' body_big_number)\<lparr>req_Body := NopCloser body_big_number\<rparr>) =
      (post_request ''application/json'' body_big_number)
        \<lparr>req_Body := NopCloser ''{"max_tokens":9007199254740992,"model":"less-safe-model"}'',
         req_ContentLength := 57\<rparr>\<close>
    using remapModel_applied [OF _ _ _ _ proxy_modelMap(1) m,
        of "(post_request ''application/json'' body_big_number)\<lparr>req_Body := NopCloser body_big_number\<rparr>"
           body_big_number]
    by (simp add: post_request_fields go_stdlib_fields decode_big_number post_request_def Header_Get_def)
  then show ?thesis
    by (simp add: forwarded_read [OF post_request_read])
       (simp add: post_request_def body_big_number_def)
qed

theorem remap_reencodes_decoded_object_witness:
  \<open>\<exists>data'. go_Marshal data' =
       Some (pending (req_Body (forwarded (go_stdlib no_upstream) proxy
         (post_request ''application/json'' body_big_number)))) \<and>
     dom (map_of data') = {''model'', ''max_tokens''} \<and>
     map_of data' ''model'' = Some (JString ''less-safe-model'') \<and>
     map_of data' ''max_tokens'' = Some (JNumber 9007199254740992)\<close>
proof -
  have m: \<open>json_Marshal (go_stdlib no_upstream)
      (AList.update ''model'' (JString ''less-safe-model'')
        [(''model'', JString ''some-dangerous-model''), (''max_tokens'', JNumber 9007199254740992)])
      = Some ''{"max_tokens":9007199254740992,"model":"less-safe-model"}''\<close>
    by (simp add: go_stdlib_fields encode_big_number)
  have u: "json_Unmarshal (go_stdlib no_upstream) body_big_number =
      Some [(''model'', JString ''some-dangerous-model''), (''max_tokens'', JNumber 9007199254740992)]"
    by (simp add: go_stdlib_fields decode_big_number)
  have k: "map_of [(''model'', JString ''some-dangerous-model''), (''max_tokens'', JNumber 9007199254740992)]
      ''model'' = Some (JString ''some-dangerous-model'')"
    by simp
  have ct: "Header_Get (req_Header (post_request ''application/json'' body_big_number)) ''Content-Type''
        = ''application/json'' \<or>
      HasPrefix (Header_Get (req_Header (post_request ''application/json'' body_big_number))
        ''Content-Type'') ''application/json;''"
    by (simp add: post_request_fields)
  obtain data' where
    "json_Marshal (go_stdlib no_upstream) data' =
       Some (pending (req_Body (forwarded (go_stdlib no_upstream) proxy
         (post_request ''application/json'' body_big_number))))"
    "dom (map_of data') =
       dom (map_of [(''model'', JString ''some-dangerous-model''),
                    (''max_tokens'', JNumber 9007199254740992)])"
    "map_of data' ''model'' = Some (JString ''less-safe-model'')"
    "\<forall>k. k \<noteq> ''model'' \<longrightarrow> map_of data' k =
       map_of [(''model'', JString ''some-dangerous-model''),
               (''max_tokens'', JNumber 9007199254740992)] k"
    using remap_reencodes_decoded_object
      [OF post_request_read post_request_fields(1) ct u k proxy_modelMap(1) m]
    by blast
  then have "go_Marshal data' =
       Some (pending (req_Body (forwarded (go_stdlib no_upstream) proxy
         (post_request ''application/json'' body_big_number)))) \<and>
     dom (map_of data') = {''model'', ''max_tokens''} \<and>
     map_of data' ''model'' = Some (JString ''less-safe-model'') \<and>
     map_of data' ''max_tokens'' = Some (JNumber 9007199254740992)"
    by (auto simp: go_stdlib_fields)
  then show ?thesis by blast
qed

end
